theory Spec2Isabelle
  imports Complex_Main "HOL-Library.Word" "HOL-Library.Log_Nat" "HOL-Library.Sublist"
begin

section \<open>Thrown values and JavaScript values\<close>

text \<open>
  Everything \<open>Realm.ts\<close> can throw is a value of \<open>error\<close>; an operation that can throw
  returns \<open>error + 'a\<close> with \<open>Inl\<close> for the thrown value. \<open>Error m\<close> is the plain
  \<^verbatim>\<open>new Error(m)\<close> of the source. The \<^verbatim>\<open>assert\<close> helpers are imported from
  \<^verbatim>\<open>./internal\<close>; their failures carry the kind the specification names for them
  (\<open>IllegalStateError\<close>, \<open>InvalidatedObjectError\<close>, \<open>InvalidArgumentError\<close>), the plain
  \<^verbatim>\<open>assert(cond, msg)\<close> raises \<open>AssertionError msg\<close>. \<open>EngineError\<close> is an error raised by
  the storage engine, \<open>NonError\<close> a thrown value that is no instance of \<^verbatim>\<open>Error\<close>.
\<close>

datatype error =
    Error string
  | AssertionError string
  | IllegalStateError string
  | InvalidatedObjectError string
  | InvalidArgumentError string
  | ClassNotFoundError string
  | ConfigurationError string
  | RangeError string
  | TypeError string
  | EngineError string
  | NonError string

fun instanceof_Error :: "error \<Rightarrow> bool" where
  "instanceof_Error (NonError _) = False"
| "instanceof_Error _ = True"

fun message :: "error \<Rightarrow> string" where
  "message (Error m) = m"
| "message (AssertionError m) = m"
| "message (IllegalStateError m) = m"
| "message (InvalidatedObjectError m) = m"
| "message (InvalidArgumentError m) = m"
| "message (ClassNotFoundError m) = m"
| "message (ConfigurationError m) = m"
| "message (RangeError m) = m"
| "message (TypeError m) = m"
| "message (EngineError m) = m"
| "message (NonError m) = m"

text \<open>A JavaScript number is a finite value or one of the three special values.\<close>

datatype js_number = Finite real | NaN | PosInfinity | NegInfinity

datatype js_value =
    JUndefined
  | JBoolean bool
  | JNumber js_number
  | JString string
  | JBigInt int
  | JArrayBuffer "8 word list"
  | JDate int
  | JObject string

fun typeof :: "js_value \<Rightarrow> string" where
  "typeof JUndefined = ''undefined''"
| "typeof (JBoolean _) = ''boolean''"
| "typeof (JNumber _) = ''number''"
| "typeof (JString _) = ''string''"
| "typeof (JBigInt _) = ''bigint''"
| "typeof (JArrayBuffer _) = ''object''"
| "typeof (JDate _) = ''object''"
| "typeof (JObject _) = ''object''"

text \<open>\<^verbatim>\<open>BigInt(x)\<close> on a number: the integer itself, a \<open>RangeError\<close> on anything else.\<close>

fun BigInt :: "js_number \<Rightarrow> error + int" where
  "BigInt (Finite r) =
     (if r = of_int \<lfloor>r\<rfloor> then Inr \<lfloor>r\<rfloor>
      else Inl (RangeError ''The number cannot be converted to a BigInt because it is not an integer''))"
| "BigInt _ = Inl (RangeError ''The number cannot be converted to a BigInt because it is not an integer'')"

text \<open>
  \<^verbatim>\<open>Number(b)\<close> on a bigint \<open>b\<close>: the nearest double, ties to even. Up to 53 bits the
  value is exact; above, the low \<open>bitlen - 53\<close> bits are rounded away. The result is the
  (integral) value of that double. The engine's bigints are unsigned 64-bit values, far
  below the range where the conversion would give infinity.
\<close>

definition Number_of_bigint :: "int \<Rightarrow> int" where
  "Number_of_bigint b =
     (let a = \<bar>b\<bar>; e = bitlen a - 53 in
      if e \<le> 0 then b
      else
        let q = a div 2 ^ nat e;
            r = a mod 2 ^ nat e;
            h = 2 ^ (nat e - 1);
            m = (if h < r \<or> (r = h \<and> odd q) then q + 1 else q)
        in sgn b * (m * 2 ^ nat e))"

section \<open>Configuration Resolver\<close>

text \<open>
  The platform's file system helper \<^verbatim>\<open>fs\<close> is injected by the platform; it is a parameter
  of everything that resolves a path.
\<close>

record fs =
  isAbsolutePath :: "string \<Rightarrow> bool"
  joinPaths :: "string \<Rightarrow> string \<Rightarrow> string"
  getDefaultDirectoryPath :: string

text \<open>
  The fields of \<^verbatim>\<open>Configuration\<close> that \<open>Realm.ts\<close> reads. An absent field is \<open>None\<close>
  (\<open>JUndefined\<close> for \<open>schemaVersion\<close>, which the source inspects with \<^verbatim>\<open>typeof\<close>).
  \<open>'os\<close> is the type of a declared object schema.
\<close>

record 'os configuration =
  path :: "string option"
  schema :: "'os list option"
  schemaVersion :: js_value
  inMemory :: "bool option"
  readOnly :: "bool option"
  deleteRealmIfMigrationNeeded :: "bool option"
  shouldCompactOnLaunch :: "(int \<Rightarrow> int \<Rightarrow> bool) option"
  fifoFilesFallbackPath :: "string option"
  disableFormatUpgrade :: "bool option"

text \<open>An optional boolean in a condition: only \<^verbatim>\<open>true\<close> is truthy.\<close>

definition truthy :: "bool option \<Rightarrow> bool" where
  "truthy b = (b = Some True)"

text \<open>
  The plain \<^verbatim>\<open>assert(condition, message)\<close>, imported from \<^verbatim>\<open>./internal\<close>: it raises with the
  message when the condition is false.
\<close>

definition assert :: "bool \<Rightarrow> string \<Rightarrow> error + unit" where
  "assert cond msg = (if cond then Inr () else Inl (AssertionError msg))"

text \<open>
  \<^verbatim>\<open>normalizePath\<close> reads the static field \<^verbatim>\<open>Realm.defaultPath\<close>, here the argument
  \<open>defaultPath\<close>. The field is initialised with \<^verbatim>\<open>Realm.normalizePath("default.realm")\<close>,
  a call that does not read the field.
\<close>

definition normalizePath :: "fs \<Rightarrow> string \<Rightarrow> string option \<Rightarrow> error + string" where
  "normalizePath fs defaultPath p =
     (case p of
        None \<Rightarrow> Inr defaultPath
      | Some s \<Rightarrow>
          if length s = 0 then Inl (Error ''Unexpected empty path'')
          else if isAbsolutePath fs s then Inr s
          else Inr (joinPaths fs (getDefaultDirectoryPath fs) s))"

definition initial_defaultPath :: "fs \<Rightarrow> string" where
  "initial_defaultPath fs =
     (case normalizePath fs [] (Some ''default.realm'') of Inr s \<Rightarrow> s | Inl _ \<Rightarrow> [])"

definition determinePath :: "fs \<Rightarrow> string \<Rightarrow> 'os configuration \<Rightarrow> error + string" where
  "determinePath fs defaultPath config = normalizePath fs defaultPath (path config)"

datatype SchemaMode = Immutable | ResetFile

definition determineSchemaMode :: "'os configuration \<Rightarrow> error + SchemaMode option" where
  "determineSchemaMode config =
     (case assert (\<not> truthy (readOnly config) \<or> \<not> truthy (deleteRealmIfMigrationNeeded config))
             ''Cannot set 'deleteRealmIfMigrationNeeded' when 'readOnly' is set.'' of
        Inl e \<Rightarrow> Inl e
      | Inr _ \<Rightarrow>
          if truthy (readOnly config) then Inr (Some Immutable)
          else if truthy (deleteRealmIfMigrationNeeded config) then Inr (Some ResetFile)
          else Inr None)"

text \<open>The engine's open parameters, \<^verbatim>\<open>binding.RealmConfig_Relaxed\<close>; \<open>'bs\<close> is the engine's schema.\<close>

record 'bs RealmConfig =
  rc_path :: string
  rc_fifoFilesFallbackPath :: "string option"
  rc_schema :: "'bs option"
  rc_inMemory :: bool
  rc_schemaMode :: "SchemaMode option"
  rc_schemaVersion :: "int option"
  rc_shouldCompactOnLaunchFunction :: "(64 word \<Rightarrow> 64 word \<Rightarrow> bool) option"
  rc_disableFormatUpgrade :: "bool option"

text \<open>
  \<^verbatim>\<open>transformConfig\<close>. \<open>toBindingSchema\<close> is imported from \<^verbatim>\<open>./internal\<close> and taken as a
  parameter. The object literal's fields are evaluated in the order written, after the path.
\<close>

definition transformConfig ::
    "fs \<Rightarrow> string \<Rightarrow> ('cs \<Rightarrow> 'bs) \<Rightarrow> 'os configuration \<Rightarrow> 'cs option \<Rightarrow> error + 'bs RealmConfig" where
  "transformConfig fs defaultPath toBindingSchema config normalizedSchema =
     (case determinePath fs defaultPath config of
        Inl e \<Rightarrow> Inl e
      | Inr p \<Rightarrow>
          (case determineSchemaMode config of
             Inl e \<Rightarrow> Inl e
           | Inr mode \<Rightarrow>
               (case (if schema config \<noteq> None
                      then (case schemaVersion config of
                              JNumber n \<Rightarrow> map_sum id Some (BigInt n)
                            | _ \<Rightarrow> Inr (Some 0))
                      else Inr None) of
                  Inl e \<Rightarrow> Inl e
                | Inr version \<Rightarrow>
                    Inr \<lparr> rc_path = p,
                          rc_fifoFilesFallbackPath = fifoFilesFallbackPath config,
                          rc_schema = map_option toBindingSchema normalizedSchema,
                          rc_inMemory = (inMemory config = Some True),
                          rc_schemaMode = mode,
                          rc_schemaVersion = version,
                          rc_shouldCompactOnLaunchFunction =
                            map_option
                              (\<lambda>f totalBytes usedBytes.
                                 f (Number_of_bigint (uint totalBytes)) (Number_of_bigint (uint usedBytes)))
                              (shouldCompactOnLaunch config),
                          rc_disableFormatUpgrade = disableFormatUpgrade config \<rparr>)))"

text \<open>The configuration \<^verbatim>\<open>{ path }\<close>.\<close>

definition config_of_path :: "string \<Rightarrow> 'os configuration" where
  "config_of_path p =
     \<lparr> path = Some p, schema = None, schemaVersion = JUndefined, inMemory = None,
       readOnly = None, deleteRealmIfMigrationNeeded = None, shouldCompactOnLaunch = None,
       fifoFilesFallbackPath = None, disableFormatUpgrade = None \<rparr>"

definition NOT_VERSIONED :: "64 word" where
  "NOT_VERSIONED = 18446744073709551615"

text \<open>
  The static \<^verbatim>\<open>Realm.schemaVersion(path, encryptionKey?)\<close>. The engine's static
  \<^verbatim>\<open>getSchemaVersion\<close> is the parameter \<open>getSchemaVersion\<close>; it reports an unsigned 64-bit
  value or raises.
\<close>

definition Realm_schemaVersion ::
    "fs \<Rightarrow> string \<Rightarrow> (string \<Rightarrow> error + 64 word) \<Rightarrow> string \<Rightarrow> js_value option \<Rightarrow> error + int" where
  "Realm_schemaVersion fs defaultPath getSchemaVersion p encryptionKey =
     (if encryptionKey \<noteq> None then Inl (Error ''Not yet supported'')
      else
        (case determinePath fs defaultPath (config_of_path p :: unit configuration) of
           Inl e \<Rightarrow> Inl e
         | Inr absolutePath \<Rightarrow>
             (case getSchemaVersion absolutePath of
                Inl e \<Rightarrow> Inl e
              | Inr v \<Rightarrow> if v = NOT_VERSIONED then Inr (- 1) else Inr (Number_of_bigint (uint v)))))"

section \<open>Configuration validation and opening a handle\<close>

text \<open>
  Modelled from the spec: \<^verbatim>\<open>validateConfiguration\<close> is imported from \<^verbatim>\<open>./internal\<close> and is
  not among the sources. Section 4.1 of the specification: it fails with a
  \<open>ConfigurationError\<close> if mutually exclusive flags are both set, if \<open>path\<close> is an empty
  string, or if schema entries fail schema validation. Schema validation itself is the
  parameter \<open>validRealmSchema\<close>.
\<close>

definition validateConfiguration :: "('os list \<Rightarrow> bool) \<Rightarrow> 'os configuration \<Rightarrow> error + unit" where
  "validateConfiguration validRealmSchema config =
     (if truthy (readOnly config) \<and> truthy (deleteRealmIfMigrationNeeded config)
      then Inl (ConfigurationError ''Cannot set 'deleteRealmIfMigrationNeeded' when 'readOnly' is set.'')
      else if path config = Some [] then Inl (ConfigurationError ''Expected a non-empty path'')
      else (case schema config of
              None \<Rightarrow> Inr ()
            | Some entries \<Rightarrow>
                if validRealmSchema entries then Inr ()
                else Inl (ConfigurationError ''Invalid schema'')))"

text \<open>
  The constructor up to the point where the engine hands out the handle:
  \<^verbatim>\<open>validateConfiguration\<close>, \<^verbatim>\<open>normalizeRealmSchema\<close> (a parameter, it may raise),
  \<^verbatim>\<open>transformConfig\<close>, then the engine's \<^verbatim>\<open>getSharedRealm\<close> (a parameter). The result is
  the engine handle stored in \<^verbatim>\<open>this.internal\<close>.
\<close>

definition Realm_constructor ::
    "fs \<Rightarrow> string \<Rightarrow> ('os list \<Rightarrow> bool) \<Rightarrow> ('os list \<Rightarrow> error + 'cs) \<Rightarrow> ('cs \<Rightarrow> 'bs) \<Rightarrow>
     ('bs RealmConfig \<Rightarrow> error + 'h) \<Rightarrow> 'os configuration \<Rightarrow> error + 'h" where
  "Realm_constructor fs defaultPath validRealmSchema normalizeRealmSchema toBindingSchema
       getSharedRealm config =
     (case validateConfiguration validRealmSchema config of
        Inl e \<Rightarrow> Inl e
      | Inr _ \<Rightarrow>
          (case (case schema config of
                   None \<Rightarrow> Inr None
                 | Some entries \<Rightarrow> map_sum id Some (normalizeRealmSchema entries)) of
             Inl e \<Rightarrow> Inl e
           | Inr normalizedSchema \<Rightarrow>
               (case transformConfig fs defaultPath toBindingSchema config normalizedSchema of
                  Inl e \<Rightarrow> Inl e
                | Inr internalConfig \<Rightarrow> getSharedRealm internalConfig)))"

section \<open>Template objects\<close>

text \<open>A property of a normalized object schema; an absent default is \<open>JUndefined\<close>.\<close>

record property =
  p_type :: string
  p_optional :: bool
  p_default :: js_value

text \<open>The \<^verbatim>\<open>switch (property.type)\<close> of \<^verbatim>\<open>createTemplateObject\<close>: the value it assigns, if any.\<close>

definition switch_type :: "string \<Rightarrow> js_value option" where
  "switch_type t =
     (if t = ''bool'' then Some (JBoolean False)
      else if t = ''int'' then Some (JNumber (Finite 0))
      else if t = ''float'' then Some (JNumber (Finite 0))
      else if t = ''double'' then Some (JNumber (Finite 0))
      else if t = ''string'' then Some (JString [])
      else if t = ''data'' then Some (JArrayBuffer [])
      else if t = ''date'' then Some (JDate 0)
      else None)"

text \<open>
  The loop over \<^verbatim>\<open>Object.entries(normalizedSchema.properties)\<close>, with \<open>result\<close> the object
  under construction.
\<close>

fun template_loop :: "(string \<times> property) list \<Rightarrow> (string \<rightharpoonup> js_value) \<Rightarrow> (string \<rightharpoonup> js_value)" where
  "template_loop [] result = result"
| "template_loop ((key, property) # rest) result =
     (if typeof (p_default property) \<noteq> ''undefined''
      then template_loop rest (result(key \<mapsto> p_default property))
      else if p_optional property then template_loop rest result
      else (case switch_type (p_type property) of
              Some v \<Rightarrow> template_loop rest (result(key \<mapsto> v))
            | None \<Rightarrow> template_loop rest result))"

text \<open>
  \<^verbatim>\<open>validateObjectSchema\<close> and \<^verbatim>\<open>normalizeObjectSchema\<close> are imported from \<^verbatim>\<open>./internal\<close>;
  they are parameters. The second returns the entries of the normalized schema's
  \<open>properties\<close>, in order.
\<close>

definition createTemplateObject ::
    "('os \<Rightarrow> error + unit) \<Rightarrow> ('os \<Rightarrow> (string \<times> property) list) \<Rightarrow> 'os \<Rightarrow> error + (string \<rightharpoonup> js_value)" where
  "createTemplateObject validateObjectSchema normalizeObjectSchema objectSchema =
     (case validateObjectSchema objectSchema of
        Inl e \<Rightarrow> Inl e
      | Inr _ \<Rightarrow> Inr (template_loop (normalizeObjectSchema objectSchema) Map.empty))"

section \<open>The storage engine's handle\<close>

type_synonym tableKey = nat
type_synonym objKey = int
type_synonym row = "string \<rightharpoonup> js_value"
type_synonym table = "objKey \<rightharpoonup> row"

text \<open>An entry of the engine-reported schema, with the fields \<open>Realm.ts\<close> reads.\<close>

record ObjectSchema =
  os_name :: string
  os_primaryKey :: "string option"
  os_tableKey :: tableKey

text \<open>
  Modelled from the spec: the storage engine is consumed through the interface of
  section 6 and is not among the sources. A handle owns its schema, the schema version
  (a bigint) and the tables; \<open>live\<close> is the data as seen through the handle, pending writes
  included, \<open>committed\<close> the data of the last commit.
\<close>

record database =
  db_schema :: "ObjectSchema list"
  db_schemaVersion :: int
  db_tables :: "tableKey \<rightharpoonup> table"

record realm_internal =
  isClosed :: bool
  isInTransaction :: bool
  live :: database
  committed :: database

text \<open>
  Modelled from the spec: the transaction state machine of section 4.4.
  \<^verbatim>\<open>beginTransaction\<close>: \<open>Idle \<rightarrow> InTransaction\<close>, fails if already in a transaction;
  \<^verbatim>\<open>commitTransaction\<close>: \<open>InTransaction \<rightarrow> Idle\<close>, persists all pending writes, fails if not
  in a transaction; \<^verbatim>\<open>cancelTransaction\<close>: \<open>InTransaction \<rightarrow> Idle\<close>, discards all pending
  writes, fails if not in a transaction. An operation on a closed handle is an
  \<open>IllegalStateError\<close> (section 7).
\<close>

definition verifyOpen :: "realm_internal \<Rightarrow> error + unit" where
  "verifyOpen ri =
     (if isClosed ri then Inl (IllegalStateError ''Cannot access realm that has been closed.'')
      else Inr ())"

definition beginTransaction :: "realm_internal \<Rightarrow> error + realm_internal" where
  "beginTransaction ri =
     (if isClosed ri then Inl (IllegalStateError ''Cannot access realm that has been closed.'')
      else if isInTransaction ri then Inl (IllegalStateError ''The Realm is already in a write transaction'')
      else Inr (ri\<lparr>isInTransaction := True\<rparr>))"

definition commitTransaction :: "realm_internal \<Rightarrow> error + realm_internal" where
  "commitTransaction ri =
     (if isClosed ri then Inl (IllegalStateError ''Cannot access realm that has been closed.'')
      else if \<not> isInTransaction ri then Inl (IllegalStateError ''Cannot commit a non-existing write transaction'')
      else Inr (ri\<lparr>isInTransaction := False, committed := live ri\<rparr>))"

definition cancelTransaction :: "realm_internal \<Rightarrow> error + realm_internal" where
  "cancelTransaction ri =
     (if isClosed ri then Inl (IllegalStateError ''Cannot access realm that has been closed.'')
      else if \<not> isInTransaction ri then Inl (IllegalStateError ''Cannot cancel a non-existing write transaction'')
      else Inr (ri\<lparr>isInTransaction := False, live := committed ri\<rparr>))"

text \<open>
  Modelled from the spec: table access of section 6. \<^verbatim>\<open>getTable\<close> finds a table by its
  key; \<^verbatim>\<open>removeObject\<close> removes one row and raises the engine's own error when the row
  does not exist; a row reference \<^verbatim>\<open>binding.Obj\<close> is a table key and an object key, valid
  while the handle is open and the row exists (section 3, typed object wrapper).
\<close>

record obj =
  obj_table :: tableKey
  obj_key :: objKey

definition getTable :: "realm_internal \<Rightarrow> tableKey \<Rightarrow> error + table" where
  "getTable ri tk =
     (case db_tables (live ri) tk of
        None \<Rightarrow> Inl (EngineError ''No such table'')
      | Some t \<Rightarrow> Inr t)"

definition removeObject :: "realm_internal \<Rightarrow> tableKey \<Rightarrow> objKey \<Rightarrow> error + realm_internal" where
  "removeObject ri tk k =
     (case db_tables (live ri) tk of
        None \<Rightarrow> Inl (EngineError ''No such table'')
      | Some t \<Rightarrow>
          (case t k of
             None \<Rightarrow> Inl (EngineError ''No object with key'')
           | Some _ \<Rightarrow>
               Inr (ri\<lparr>live := (live ri)\<lparr>db_tables := (db_tables (live ri))(tk \<mapsto> t(k := None))\<rparr>\<rparr>)))"

definition obj_isValid :: "realm_internal \<Rightarrow> obj \<Rightarrow> bool" where
  "obj_isValid ri ob =
     (\<not> isClosed ri \<and>
      (case db_tables (live ri) (obj_table ob) of
         None \<Rightarrow> False
       | Some t \<Rightarrow> t (obj_key ob) \<noteq> None))"

text \<open>
  Modelled from the spec: \<^verbatim>\<open>deleteModel\<close> (section 4.5) removes all data of the class and
  fails with an engine error if the name does not exist; \<^verbatim>\<open>updateSchema\<close> (section 6)
  applies a schema and a version.
\<close>

definition deleteDataForObject :: "realm_internal \<Rightarrow> string \<Rightarrow> error + realm_internal" where
  "deleteDataForObject ri n =
     (case find (\<lambda>s. os_name s = n) (db_schema (live ri)) of
        None \<Rightarrow> Inl (EngineError ''No such object type'')
      | Some s \<Rightarrow>
          Inr (ri\<lparr>live := (live ri)\<lparr>db_tables := (db_tables (live ri))(os_tableKey s := None)\<rparr>\<rparr>))"

definition updateSchema :: "realm_internal \<Rightarrow> ObjectSchema list \<Rightarrow> int \<Rightarrow> realm_internal" where
  "updateSchema ri newSchema version =
     ri\<lparr>live := (live ri)\<lparr>db_schema := newSchema, db_schemaVersion := version\<rparr>\<rparr>"

section \<open>Class Map and typed objects\<close>

text \<open>
  A typed object wrapper: its class and the row reference \<^verbatim>\<open>[INTERNAL]\<close>, absent for a
  detached object.
\<close>

record RealmObject =
  ro_class :: string
  ro_internal :: "obj option"

text \<open>
  Modelled from the spec: \<^verbatim>\<open>ClassMap\<close> is imported from \<^verbatim>\<open>./internal\<close>. Section 4.3:
  \<^verbatim>\<open>getHelpers\<close> resolves a class identifier through one name-keyed table and fails with a
  \<open>ClassNotFoundError\<close> if no matching schema exists on the handle. The helpers of a class
  hold its schema, the encoder \<^verbatim>\<open>toBinding\<close> of each property (looking up a property may
  raise) and the factory \<^verbatim>\<open>wrapObject\<close>.
\<close>

record ClassHelpers =
  objectSchema :: ObjectSchema
  properties_get :: "string \<Rightarrow> error + (js_value \<Rightarrow> error + js_value)"
  wrapObject :: "obj \<Rightarrow> RealmObject"

definition getHelpers :: "(string \<rightharpoonup> ClassHelpers) \<Rightarrow> string \<Rightarrow> error + ClassHelpers" where
  "getHelpers cm n =
     (case cm n of
        None \<Rightarrow> Inl (ClassNotFoundError n)
      | Some h \<Rightarrow> Inr h)"

text \<open>The fields of a \<^verbatim>\<open>Realm\<close> instance.\<close>

record realm =
  internal :: realm_internal
  classes :: "string \<rightharpoonup> ClassHelpers"

section \<open>Transaction Controller\<close>

text \<open>
  \<^verbatim>\<open>write(callback)\<close>. The callback is a closure over the instance: it takes the instance as it
  is after \<^verbatim>\<open>beginTransaction\<close> and leaves it changed, returning a value or raising.
\<close>

definition Realm_write :: "realm \<Rightarrow> (realm \<Rightarrow> (error + 'v) \<times> realm) \<Rightarrow> (error + 'v) \<times> realm" where
  "Realm_write r callback =
     (case beginTransaction (internal r) of
        Inl e \<Rightarrow> (Inl e, r)
      | Inr ri \<Rightarrow>
          (case callback (r\<lparr>internal := ri\<rparr>) of
             (Inl err, r') \<Rightarrow>
               (case cancelTransaction (internal r') of
                  Inl e \<Rightarrow> (Inl e, r')
                | Inr ri' \<Rightarrow> (Inl err, r'\<lparr>internal := ri'\<rparr>))
           | (Inr result, r') \<Rightarrow>
               (case commitTransaction (internal r') of
                  Inl e \<Rightarrow> (Inl e, r')
                | Inr ri' \<Rightarrow> (Inr result, r'\<lparr>internal := ri'\<rparr>))))"

text \<open>The instance methods \<^verbatim>\<open>cancelTransaction()\<close> and \<^verbatim>\<open>commitTransaction()\<close>.\<close>

definition Realm_cancelTransaction :: "realm \<Rightarrow> (error + unit) \<times> realm" where
  "Realm_cancelTransaction r =
     (case cancelTransaction (internal r) of
        Inl e \<Rightarrow> (Inl e, r)
      | Inr ri \<Rightarrow> (Inr (), r\<lparr>internal := ri\<rparr>))"

definition Realm_commitTransaction :: "realm \<Rightarrow> (error + unit) \<times> realm" where
  "Realm_commitTransaction r =
     (case commitTransaction (internal r) of
        Inl e \<Rightarrow> (Inl e, r)
      | Inr ri \<Rightarrow> (Inr (), r\<lparr>internal := ri\<rparr>))"

section \<open>Object Lifecycle Manager\<close>

subsection \<open>create\<close>

text \<open>
  The enumeration \<^verbatim>\<open>UpdateMode\<close> is imported from \<^verbatim>\<open>./internal\<close>; its three members are
  the strings the error message of \<^verbatim>\<open>create\<close> lists.
\<close>

datatype UpdateMode = UpdateNever | UpdateModified | UpdateAll

fun UpdateMode_value :: "UpdateMode \<Rightarrow> js_value" where
  "UpdateMode_value UpdateNever = JString ''never''"
| "UpdateMode_value UpdateModified = JString ''modified''"
| "UpdateMode_value UpdateAll = JString ''all''"

definition UpdateMode_values :: "js_value list" where
  "UpdateMode_values = map UpdateMode_value [UpdateNever, UpdateModified, UpdateAll]"

text \<open>The \<open>values\<close> argument: a plain object, or an instance of \<^verbatim>\<open>RealmObject\<close>.\<close>

datatype create_values = PlainValues "(string \<times> js_value) list" | InstanceValues RealmObject

text \<open>
  \<^verbatim>\<open>create(type, values, mode = UpdateMode.Never)\<close>. \<^verbatim>\<open>RealmObject.create\<close> is imported from
  \<^verbatim>\<open>./internal\<close> and is the parameter \<open>RealmObject_create\<close>.
\<close>

definition create ::
    "(realm \<Rightarrow> create_values \<Rightarrow> js_value \<Rightarrow> ClassHelpers \<Rightarrow> (error + RealmObject) \<times> realm) \<Rightarrow>
     realm \<Rightarrow> string \<Rightarrow> create_values \<Rightarrow> js_value \<Rightarrow> (error + RealmObject) \<times> realm" where
  "create RealmObject_create r type values mode =
     (let mode0 = (if mode = JUndefined then UpdateMode_value UpdateNever else mode);
          mode1 = (if mode0 = JBoolean True then UpdateMode_value UpdateAll
                   else if mode0 = JBoolean False then UpdateMode_value UpdateNever
                   else mode0)
      in
        if (case values of InstanceValues v \<Rightarrow> ro_internal v = None | PlainValues _ \<Rightarrow> False)
        then (Inl (Error ''Cannot create an object from a detached Realm.Object instance''), r)
        else if mode1 \<notin> set UpdateMode_values
        then (Inl (Error ''Unsupported 'updateMode'. Only 'never', 'modified' or 'all' is supported.''), r)
        else
          (case verifyOpen (internal r) of
             Inl e \<Rightarrow> (Inl e, r)
           | Inr _ \<Rightarrow>
               (case getHelpers (classes r) type of
                  Inl e \<Rightarrow> (Inl e, r)
                | Inr helpers \<Rightarrow> RealmObject_create r values mode1 helpers)))"

subsection \<open>delete\<close>

text \<open>
  The shapes a subject can have at run time: a value that is no object, an instance of
  \<^verbatim>\<open>RealmObject\<close>, an array or another iterable (a list, a query result) with its items, or
  any other object.
\<close>

datatype js_item = ItemObject RealmObject | ItemOther js_value

datatype subject = NonObject js_value | Instance RealmObject | Iterable "js_item list" | PlainObject

text \<open>
  Modelled from the spec: the \<^verbatim>\<open>assert\<close> helpers are imported from \<^verbatim>\<open>./internal\<close>.
  \<^verbatim>\<open>assert.inTransaction\<close> fails with an \<open>IllegalStateError\<close> outside a transaction,
  \<^verbatim>\<open>assert.isValid\<close> with an \<open>InvalidatedObjectError\<close> on a row reference that is not
  attached any more (section 4.5); a subject or an item of the wrong shape is an
  \<open>InvalidArgumentError\<close> (section 7).
\<close>

definition assert_inTransaction :: "realm \<Rightarrow> string \<Rightarrow> error + unit" where
  "assert_inTransaction r msg =
     (if isInTransaction (internal r) then Inr () else Inl (IllegalStateError msg))"

definition assert_isValid :: "realm_internal \<Rightarrow> obj option \<Rightarrow> string \<Rightarrow> error + obj" where
  "assert_isValid ri ob msg =
     (case ob of
        None \<Rightarrow> Inl (InvalidatedObjectError msg)
      | Some b \<Rightarrow> if obj_isValid ri b then Inr b else Inl (InvalidatedObjectError msg))"

text \<open>The body of the loop \<^verbatim>\<open>for (const object of subject)\<close>, and the loop.\<close>

fun delete_items :: "realm \<Rightarrow> js_item list \<Rightarrow> (error + unit) \<times> realm" where
  "delete_items r [] = (Inr (), r)"
| "delete_items r (ItemOther v # rest) =
     (Inl (InvalidArgumentError ''Expected value to be an instance of RealmObject''), r)"
| "delete_items r (ItemObject object # rest) =
     (case getHelpers (classes r) (ro_class object) of
        Inl e \<Rightarrow> (Inl e, r)
      | Inr helpers \<Rightarrow>
          (case getTable (internal r) (os_tableKey (objectSchema helpers)) of
             Inl e \<Rightarrow> (Inl e, r)
           | Inr _ \<Rightarrow>
               (case ro_internal object of
                  None \<Rightarrow> (Inl (TypeError ''Cannot read properties of undefined (reading 'key')''), r)
                | Some b \<Rightarrow>
                    (case removeObject (internal r) (os_tableKey (objectSchema helpers)) (obj_key b) of
                       Inl e \<Rightarrow> (Inl e, r)
                     | Inr ri \<Rightarrow> delete_items (r\<lparr>internal := ri\<rparr>) rest))))"

definition Realm_delete :: "realm \<Rightarrow> subject \<Rightarrow> (error + unit) \<times> realm" where
  "Realm_delete r subj =
     (case assert_inTransaction r ''Can only delete objects within a transaction.'' of
        Inl e \<Rightarrow> (Inl e, r)
      | Inr _ \<Rightarrow>
          (case subj of
             NonObject v \<Rightarrow> (Inl (InvalidArgumentError ''Expected 'subject' to be an object''), r)
           | Instance s \<Rightarrow>
               (case getHelpers (classes r) (ro_class s) of
                  Inl e \<Rightarrow> (Inl e, r)
                | Inr helpers \<Rightarrow>
                    (case assert_isValid (internal r) (ro_internal s)
                            ''Object is invalid. Either it has been previously deleted or the Realm it belongs to has been closed.'' of
                       Inl e \<Rightarrow> (Inl e, r)
                     | Inr b \<Rightarrow>
                         (case getTable (internal r) (os_tableKey (objectSchema helpers)) of
                            Inl e \<Rightarrow> (Inl e, r)
                          | Inr _ \<Rightarrow>
                              (case removeObject (internal r) (os_tableKey (objectSchema helpers)) (obj_key b) of
                                 Inl e \<Rightarrow> (Inl e, r)
                               | Inr ri \<Rightarrow> (Inr (), r\<lparr>internal := ri\<rparr>)))))
           | Iterable items \<Rightarrow> delete_items r items
           | PlainObject \<Rightarrow> (Inl (Error ''Not yet implemented''), r)))"

subsection \<open>deleteModel\<close>

definition deleteModel :: "realm \<Rightarrow> string \<Rightarrow> (error + unit) \<times> realm" where
  "deleteModel r n =
     (case assert_inTransaction r ''Can only delete objects within a transaction.'' of
        Inl e \<Rightarrow> (Inl e, r)
      | Inr _ \<Rightarrow>
          (case deleteDataForObject (internal r) n of
             Inl e \<Rightarrow> (Inl e, r)
           | Inr ri \<Rightarrow>
               (let newSchema = filter (\<lambda>objectSchema. os_name objectSchema \<noteq> n) (db_schema (live ri))
                in (Inr (), r\<lparr>internal := updateSchema ri newSchema (db_schemaVersion (live ri) + 1)\<rparr>))))"

subsection \<open>objectForPrimaryKey\<close>

text \<open>
  The two lookups of the engine's table and the rendering of the key in a template string
  are parameters: what \<^verbatim>\<open>objectForPrimaryKey\<close> does with each of their outcomes, a raised
  error included, is what is verified.
\<close>

record lookup_binding =
  findPrimaryKey :: "table \<Rightarrow> js_value \<Rightarrow> error + js_value"
  getObject :: "table \<Rightarrow> objKey \<Rightarrow> error + obj"
  toString :: "js_value \<Rightarrow> string"

definition quoted :: "string \<Rightarrow> string" where
  "quoted s = [CHR 0x27] @ s @ [CHR 0x27]"

definition assert_bigInt :: "js_value \<Rightarrow> error + int" where
  "assert_bigInt v = (case v of JBigInt k \<Rightarrow> Inr k | _ \<Rightarrow> Inl (AssertionError ''Expected a bigint''))"

text \<open>The \<^verbatim>\<open>catch\<close> clause: the thrown value it leaves the method with.\<close>

definition lookup_catch :: "lookup_binding \<Rightarrow> ObjectSchema \<Rightarrow> js_value \<Rightarrow> error \<Rightarrow> error" where
  "lookup_catch b os primaryKey err =
     (if instanceof_Error err \<and> prefix ''No object with key'' (message err)
      then Error (''No '' @ quoted (os_name os) @ '' with key '' @ quoted (toString b primaryKey))
      else err)"

definition objectForPrimaryKey ::
    "lookup_binding \<Rightarrow> realm \<Rightarrow> string \<Rightarrow> js_value \<Rightarrow> error + RealmObject option" where
  "objectForPrimaryKey b r type primaryKey =
     (case getHelpers (classes r) type of
        Inl e \<Rightarrow> Inl e
      | Inr helpers \<Rightarrow>
          (let os = objectSchema helpers;
               pk = (case os_primaryKey os of None \<Rightarrow> [] | Some s \<Rightarrow> s)
           in
           if length pk = 0
           then Inl (Error (''Expected a primary key on '' @ quoted (os_name os)))
           else
             (case getTable (internal r) (os_tableKey os) of
                Inl e \<Rightarrow> Inl e
              | Inr t \<Rightarrow>
                  (case properties_get helpers pk of
                     Inl e \<Rightarrow> Inl e
                   | Inr toBinding \<Rightarrow>
                       (case toBinding primaryKey of
                          Inl e \<Rightarrow> Inl e
                        | Inr v \<Rightarrow>
                            (case findPrimaryKey b t v of
                               Inl err \<Rightarrow> Inl (lookup_catch b os primaryKey err)
                             | Inr k \<Rightarrow>
                                 (case assert_bigInt k of
                                    Inl err \<Rightarrow> Inl (lookup_catch b os primaryKey err)
                                  | Inr objKey \<Rightarrow>
                                      if objKey = - 1 then Inr None
                                      else
                                        (case getObject b t objKey of
                                           Inl err \<Rightarrow> Inl (lookup_catch b os primaryKey err)
                                         | Inr ob \<Rightarrow> Inr (Some (wrapObject helpers ob))))))))))"

section \<open>Sample platform, handles and callbacks\<close>

text \<open>A POSIX-like platform, used to run the definitions on concrete inputs.\<close>

definition posix_fs :: fs where
  "posix_fs =
     \<lparr> isAbsolutePath = (\<lambda>s. case s of [] \<Rightarrow> False | c # _ \<Rightarrow> c = CHR ''/''),
       joinPaths = (\<lambda>a b. a @ ''/'' @ b),
       getDefaultDirectoryPath = ''/data'' \<rparr>"

text \<open>The entries of a normalized schema with one property of each kind.\<close>

definition properties_example :: "(string \<times> property) list" where
  "properties_example =
     [(''name'', \<lparr>p_type = ''string'', p_optional = False, p_default = JUndefined\<rparr>),
      (''age'', \<lparr>p_type = ''int'', p_optional = False, p_default = JNumber (Finite 5)\<rparr>),
      (''nick'', \<lparr>p_type = ''string'', p_optional = True, p_default = JUndefined\<rparr>),
      (''born'', \<lparr>p_type = ''date'', p_optional = False, p_default = JUndefined\<rparr>),
      (''owner'', \<lparr>p_type = ''object'', p_optional = False, p_default = JUndefined\<rparr>),
      (''tags'', \<lparr>p_type = ''list'', p_optional = False, p_default = JUndefined\<rparr>)]"

text \<open>An open handle with no classes, outside a transaction.\<close>

definition database_empty :: database where
  "database_empty = \<lparr>db_schema = [], db_schemaVersion = 0, db_tables = Map.empty\<rparr>"

definition realm_idle :: realm where
  "realm_idle =
     \<lparr> internal = \<lparr>isClosed = False, isInTransaction = False, live = database_empty, committed = database_empty\<rparr>,
       classes = Map.empty \<rparr>"

text \<open>
  The callbacks \<^verbatim>\<open>() => { realm.cancelTransaction(); throw new Error("E") }\<close> and
  \<^verbatim>\<open>() => { realm.commitTransaction(); return 5 }\<close>.
\<close>

definition callback_cancel_then_throw :: "realm \<Rightarrow> (error + unit) \<times> realm" where
  "callback_cancel_then_throw r =
     (case Realm_cancelTransaction r of
        (Inl e, r') \<Rightarrow> (Inl e, r')
      | (Inr _, r') \<Rightarrow> (Inl (Error ''E''), r'))"

definition callback_commit_then_return :: "realm \<Rightarrow> (error + int) \<times> realm" where
  "callback_commit_then_return r =
     (case Realm_commitTransaction r of
        (Inl e, r') \<Rightarrow> (Inl e, r')
      | (Inr _, r') \<Rightarrow> (Inr 5, r'))"

text \<open>Callbacks that write (here: to the schema version of the live data), then raise or return.\<close>

definition callback_throw :: "realm \<Rightarrow> (error + int) \<times> realm" where
  "callback_throw r =
     (Inl (Error ''E''), r\<lparr>internal := (internal r)\<lparr>live := (live (internal r))\<lparr>db_schemaVersion := 9\<rparr>\<rparr>\<rparr>)"

definition callback_return :: "realm \<Rightarrow> (error + int) \<times> realm" where
  "callback_return r =
     (Inr 5, r\<lparr>internal := (internal r)\<lparr>live := (live (internal r))\<lparr>db_schemaVersion := 9\<rparr>\<rparr>\<rparr>)"

text \<open>
  A handle inside a transaction with two classes: \<open>Dog\<close>, with the primary key \<open>name\<close> and
  one row under the object key \<open>1\<close>, and \<open>Cat\<close>, with no primary key and no rows. Three
  typed objects of class \<open>Dog\<close>: one on the existing row, one on a row that was deleted
  (no row has the key \<open>7\<close>), one detached.
\<close>

definition dog_schema :: ObjectSchema where
  "dog_schema = \<lparr>os_name = ''Dog'', os_primaryKey = Some ''name'', os_tableKey = 0\<rparr>"

definition dog_helpers :: ClassHelpers where
  "dog_helpers =
     \<lparr> objectSchema = dog_schema,
       properties_get = (\<lambda>p. if p = ''name'' then Inr Inr else Inl (Error ''Property does not exist'')),
       wrapObject = (\<lambda>ob. \<lparr>ro_class = ''Dog'', ro_internal = Some ob\<rparr>) \<rparr>"

definition cat_schema :: ObjectSchema where
  "cat_schema = \<lparr>os_name = ''Cat'', os_primaryKey = None, os_tableKey = 1\<rparr>"

definition cat_helpers :: ClassHelpers where
  "cat_helpers =
     \<lparr> objectSchema = cat_schema,
       properties_get = (\<lambda>p. Inl (Error ''Property does not exist'')),
       wrapObject = (\<lambda>ob. \<lparr>ro_class = ''Cat'', ro_internal = Some ob\<rparr>) \<rparr>"

definition database_dogs :: database where
  "database_dogs =
     \<lparr> db_schema = [dog_schema, cat_schema], db_schemaVersion = 3,
       db_tables = [0 \<mapsto> [1 \<mapsto> [''name'' \<mapsto> JString ''Rex'']], 1 \<mapsto> Map.empty] \<rparr>"

definition realm_dogs :: realm where
  "realm_dogs =
     \<lparr> internal = \<lparr>isClosed = False, isInTransaction = True, live = database_dogs, committed = database_dogs\<rparr>,
       classes = [''Dog'' \<mapsto> dog_helpers, ''Cat'' \<mapsto> cat_helpers] \<rparr>"

definition dog_live :: RealmObject where
  "dog_live = \<lparr>ro_class = ''Dog'', ro_internal = Some \<lparr>obj_table = 0, obj_key = 1\<rparr>\<rparr>"

definition dog_deleted :: RealmObject where
  "dog_deleted = \<lparr>ro_class = ''Dog'', ro_internal = Some \<lparr>obj_table = 0, obj_key = 7\<rparr>\<rparr>"

definition dog_detached :: RealmObject where
  "dog_detached = \<lparr>ro_class = ''Dog'', ro_internal = None\<rparr>"

text \<open>
  An engine whose key lookup finds \<open>Rex\<close>, fails on \<open>boom\<close> with an error of its own, signals
  that \<open>Ghost\<close> has no row with an error "No object with key ...", reports for \<open>Stale\<close> the key
  \<open>9\<close> of a row that is gone, and reports the null key \<open>-1\<close> otherwise; and a stand-in for
  \<^verbatim>\<open>RealmObject.create\<close>.
\<close>

definition lookup_sample :: lookup_binding where
  "lookup_sample =
     \<lparr> findPrimaryKey =
         (\<lambda>t v. if v = JString ''Rex'' then Inr (JBigInt 1)
                 else if v = JString ''boom'' then Inl (EngineError ''I/O failure'')
                 else if v = JString ''Ghost'' then Inl (EngineError ''No object with key Ghost'')
                 else if v = JString ''Stale'' then Inr (JBigInt 9)
                 else Inr (JBigInt (- 1))),
       getObject =
         (\<lambda>t k. if t k \<noteq> None then Inr \<lparr>obj_table = 0, obj_key = k\<rparr>
                 else Inl (EngineError ''No object with key'')),
       toString = (\<lambda>v. case v of JString s \<Rightarrow> s | _ \<Rightarrow> []) \<rparr>"

definition RealmObject_create_sample ::
    "realm \<Rightarrow> create_values \<Rightarrow> js_value \<Rightarrow> ClassHelpers \<Rightarrow> (error + RealmObject) \<times> realm" where
  "RealmObject_create_sample r vs m helpers = (Inr dog_live, r)"

section \<open>Path resolution\<close>

lemma initial_defaultPath_relative:
  "\<not> isAbsolutePath fs ''default.realm'' \<Longrightarrow>
   initial_defaultPath fs = joinPaths fs (getDefaultDirectoryPath fs) ''default.realm''"
  by (simp add: initial_defaultPath_def normalizePath_def)

lemma determinePath_absent:
  "determinePath fs dp (config\<lparr>path := None\<rparr>) = Inr dp"
  by (simp add: determinePath_def normalizePath_def)

text \<open>
  Claim C2. \<^verbatim>\<open>determinePath\<close> returns an absolute non-empty \<open>config.path\<close> unchanged, joins a
  relative non-empty one to the default directory, raises on the empty string, and for an
  absent path returns the default file name joined with the default directory. The last
  case reads the static \<^verbatim>\<open>Realm.defaultPath\<close> as its initialiser left it, on a platform
  where the name \<^verbatim>\<open>default.realm\<close> is not an absolute path.
\<close>

theorem determinePath_resolves:
  fixes config :: "'os configuration"
  shows "(p \<noteq> [] \<and> isAbsolutePath fs p \<longrightarrow>
            determinePath fs dp (config\<lparr>path := Some p\<rparr>) = Inr p)
       \<and> (p \<noteq> [] \<and> \<not> isAbsolutePath fs p \<longrightarrow>
            determinePath fs dp (config\<lparr>path := Some p\<rparr>)
              = Inr (joinPaths fs (getDefaultDirectoryPath fs) p))
       \<and> (\<not> isAbsolutePath fs ''default.realm'' \<longrightarrow>
            determinePath fs (initial_defaultPath fs) (config\<lparr>path := None\<rparr>)
              = Inr (joinPaths fs (getDefaultDirectoryPath fs) ''default.realm''))
       \<and> determinePath fs dp (config\<lparr>path := Some []\<rparr>) = Inl (Error ''Unexpected empty path'')"
  by (simp add: determinePath_def normalizePath_def initial_defaultPath_relative)

theorem determinePath_resolves_witness:
  "isAbsolutePath posix_fs ''/tmp/a.realm''
   \<and> determinePath posix_fs (initial_defaultPath posix_fs) (config_of_path ''/tmp/a.realm'' :: unit configuration)
       = Inr ''/tmp/a.realm''
   \<and> \<not> isAbsolutePath posix_fs ''a.realm''
   \<and> determinePath posix_fs (initial_defaultPath posix_fs) (config_of_path ''a.realm'' :: unit configuration)
       = Inr ''/data/a.realm''
   \<and> \<not> isAbsolutePath posix_fs ''default.realm''
   \<and> determinePath posix_fs (initial_defaultPath posix_fs)
        ((config_of_path ''a.realm'' :: unit configuration)\<lparr>path := None\<rparr>)
       = Inr ''/data/default.realm''"
  using determinePath_resolves [of "''/tmp/a.realm''" posix_fs "initial_defaultPath posix_fs"
          "config_of_path ''a.realm'' :: unit configuration"]
        determinePath_resolves [of "''a.realm''" posix_fs "initial_defaultPath posix_fs"
          "config_of_path ''a.realm'' :: unit configuration"]
  by (simp add: posix_fs_def config_of_path_def)

section \<open>The schema version of a file\<close>

lemma Number_of_bigint_nonneg: "0 \<le> b \<Longrightarrow> 0 \<le> Number_of_bigint b"
  by (auto simp: Number_of_bigint_def Let_def sgn_if pos_imp_zdiv_nonneg_iff)

text \<open>The conversion rounds above 53 bits, to even on a tie.\<close>

lemma Number_of_bigint_rounds:
  "Number_of_bigint 18446744073709551614 = 18446744073709551616"
  "Number_of_bigint 9007199254740993 = 9007199254740992"
  "Number_of_bigint 9007199254740995 = 9007199254740996"
  "Number_of_bigint 9007199254740992 = 9007199254740992"
  by code_simp+

lemma Number_of_bigint_small: "Number_of_bigint 3 = 3"
  by code_simp

text \<open>
  Claim C8. For every non-empty path, when the engine's \<^verbatim>\<open>getSchemaVersion\<close> reports a
  version \<open>v\<close> for the resolved path, the static \<^verbatim>\<open>schemaVersion(path)\<close> returns a number that
  is \<open>-1\<close> exactly when \<open>v\<close> is the sentinel \<open>2^64 - 1\<close>, and is otherwise \<open>v\<close> converted
  to a number.
\<close>

theorem Realm_schemaVersion_sentinel:
  assumes "p \<noteq> []"
      and "getSchemaVersion (if isAbsolutePath fs p then p else joinPaths fs (getDefaultDirectoryPath fs) p) = Inr v"
  shows "\<exists>n. Realm_schemaVersion fs dp getSchemaVersion p None = Inr n
           \<and> (n = - 1 \<longleftrightarrow> uint v = 2 ^ 64 - 1)
           \<and> (uint v \<noteq> 2 ^ 64 - 1 \<longrightarrow> n = Number_of_bigint (uint v))"
proof -
  have nv: "(v = NOT_VERSIONED) = (uint v = 2 ^ 64 - 1)"
    unfolding NOT_VERSIONED_def by (simp add: word_uint_eq_iff)
  have nn: "Number_of_bigint (uint v) \<noteq> - 1"
    using Number_of_bigint_nonneg [of "uint v"] by simp
  show ?thesis
    using assms nv nn
    by (auto simp: Realm_schemaVersion_def determinePath_def normalizePath_def config_of_path_def)
qed

theorem Realm_schemaVersion_sentinel_witness:
  "''a.realm'' \<noteq> []
   \<and> Realm_schemaVersion posix_fs (initial_defaultPath posix_fs) (\<lambda>_. Inr 18446744073709551615) ''a.realm'' None
       = Inr (- 1)
   \<and> Realm_schemaVersion posix_fs (initial_defaultPath posix_fs) (\<lambda>_. Inr 3) ''a.realm'' None
       = Inr 3"
  using Realm_schemaVersion_sentinel [of "''a.realm''" "\<lambda>_. Inr 18446744073709551615" posix_fs
          "18446744073709551615" "initial_defaultPath posix_fs"]
        Realm_schemaVersion_sentinel [of "''a.realm''" "\<lambda>_. Inr 3" posix_fs 3 "initial_defaultPath posix_fs"]
  by (auto simp: Number_of_bigint_small)

section \<open>Engine open parameters\<close>

lemma typeof_undefined_iff: "(typeof v = ''undefined'') = (v = JUndefined)"
  by (cases v) simp_all

lemma BigInt_of_fraction:
  "r \<noteq> of_int \<lfloor>r\<rfloor> \<Longrightarrow> \<exists>m. BigInt (Finite r) = Inl (RangeError m)"
  by simp

text \<open>
  Claim C10. For a configuration whose path resolves and whose flags are not
  contradictory, \<^verbatim>\<open>transformConfig\<close> returns open parameters whose schema version is \<open>0\<close>
  when a schema is supplied and \<open>schemaVersion\<close> is not a number, the integer \<open>n\<close> when a
  schema is supplied and \<open>schemaVersion\<close> is the number \<open>n\<close>, and unset when no schema is
  supplied, whatever \<open>schemaVersion\<close> is.
\<close>

theorem transformConfig_schemaVersion:
  fixes config :: "'os configuration"
  assumes "path config \<noteq> Some []"
      and "\<not> (truthy (readOnly config) \<and> truthy (deleteRealmIfMigrationNeeded config))"
  shows "(schema config \<noteq> None \<and> typeof (schemaVersion config) \<noteq> ''number'' \<longrightarrow>
            (\<exists>rc. transformConfig fs dp toBindingSchema config ns = Inr rc \<and> rc_schemaVersion rc = Some 0))
       \<and> (schema config \<noteq> None \<and> schemaVersion config = JNumber (Finite (of_int n)) \<longrightarrow>
            (\<exists>rc. transformConfig fs dp toBindingSchema config ns = Inr rc \<and> rc_schemaVersion rc = Some n))
       \<and> (schema config = None \<longrightarrow>
            (\<exists>rc. transformConfig fs dp toBindingSchema config ns = Inr rc \<and> rc_schemaVersion rc = None))"
proof -
  have "\<exists>p. determinePath fs dp config = Inr p"
    using assms(1) by (cases "path config") (simp_all add: determinePath_def normalizePath_def)
  then obtain p where p: "determinePath fs dp config = Inr p" ..
  have "\<exists>m. determineSchemaMode config = Inr m"
    using assms(2) by (simp add: determineSchemaMode_def assert_def)
  then obtain m where m: "determineSchemaMode config = Inr m" ..
  show ?thesis
    using p m
    by (cases "schemaVersion config") (auto simp: transformConfig_def)
qed

theorem transformConfig_schemaVersion_witness:
  "path ((config_of_path ''a.realm'' :: unit configuration)\<lparr>schema := Some []\<rparr>) \<noteq> Some []
   \<and> (\<exists>rc. transformConfig posix_fs (initial_defaultPath posix_fs) (\<lambda>s::unit. s)
              ((config_of_path ''a.realm'' :: unit configuration)\<lparr>schema := Some []\<rparr>) None = Inr rc
            \<and> rc_schemaVersion rc = Some 0)
   \<and> (\<exists>rc. transformConfig posix_fs (initial_defaultPath posix_fs) (\<lambda>s::unit. s)
              ((config_of_path ''a.realm'' :: unit configuration)\<lparr>schema := Some [], schemaVersion := JNumber (Finite 7)\<rparr>) None = Inr rc
            \<and> rc_schemaVersion rc = Some 7)
   \<and> (\<exists>rc. transformConfig posix_fs (initial_defaultPath posix_fs) (\<lambda>s::unit. s)
              ((config_of_path ''a.realm'' :: unit configuration)\<lparr>schemaVersion := JNumber (Finite 7)\<rparr>) None = Inr rc
            \<and> rc_schemaVersion rc = None)"
  using transformConfig_schemaVersion [of "(config_of_path ''a.realm'' :: unit configuration)\<lparr>schema := Some []\<rparr>"
          posix_fs "initial_defaultPath posix_fs" "\<lambda>s::unit. s" None 0]
        transformConfig_schemaVersion [of "(config_of_path ''a.realm'' :: unit configuration)\<lparr>schema := Some [], schemaVersion := JNumber (Finite 7)\<rparr>"
          posix_fs "initial_defaultPath posix_fs" "\<lambda>s::unit. s" None 7]
        transformConfig_schemaVersion [of "(config_of_path ''a.realm'' :: unit configuration)\<lparr>schemaVersion := JNumber (Finite 7)\<rparr>"
          posix_fs "initial_defaultPath posix_fs" "\<lambda>s::unit. s" None 7]
  by (simp add: config_of_path_def truthy_def)

text \<open>
  Claim C7. A configuration with \<open>readOnly\<close> and \<open>deleteRealmIfMigrationNeeded\<close> both true
  fails \<^verbatim>\<open>validateConfiguration\<close> with a \<open>ConfigurationError\<close>; it also fails the assertion
  of \<^verbatim>\<open>determineSchemaMode\<close>, hence \<^verbatim>\<open>transformConfig\<close>, and the constructor raises the same
  error whatever the engine's \<^verbatim>\<open>getSharedRealm\<close> would do: the engine is not reached.
\<close>

theorem contradictory_flags_rejected:
  fixes config :: "'os configuration"
  assumes "readOnly config = Some True"
      and "deleteRealmIfMigrationNeeded config = Some True"
  shows "(\<exists>m. validateConfiguration validRealmSchema config = Inl (ConfigurationError m))
       \<and> (\<exists>e. determineSchemaMode config = Inl e)
       \<and> (\<exists>e. transformConfig fs dp toBindingSchema config ns = Inl e)
       \<and> (\<exists>e. \<forall>getSharedRealm.
              Realm_constructor fs dp validRealmSchema normalizeRealmSchema toBindingSchema getSharedRealm config = Inl e)"
proof -
  have v: "\<exists>m. validateConfiguration validRealmSchema config = Inl (ConfigurationError m)"
    using assms by (simp add: validateConfiguration_def truthy_def)
  have d: "\<exists>e. determineSchemaMode config = Inl e"
    using assms by (simp add: determineSchemaMode_def assert_def truthy_def)
  have t: "\<exists>e. transformConfig fs dp toBindingSchema config ns = Inl e"
    using d by (auto simp: transformConfig_def split: sum.splits)
  have c: "\<exists>e. \<forall>getSharedRealm.
              Realm_constructor fs dp validRealmSchema normalizeRealmSchema toBindingSchema getSharedRealm config = Inl e"
    using v by (auto simp: Realm_constructor_def)
  show ?thesis using v d t c by blast
qed

theorem contradictory_flags_rejected_witness:
  "readOnly ((config_of_path ''a.realm'' :: unit configuration)\<lparr>readOnly := Some True, deleteRealmIfMigrationNeeded := Some True\<rparr>) = Some True
   \<and> validateConfiguration (\<lambda>_. True)
        ((config_of_path ''a.realm'' :: unit configuration)\<lparr>readOnly := Some True, deleteRealmIfMigrationNeeded := Some True\<rparr>)
       = Inl (ConfigurationError ''Cannot set 'deleteRealmIfMigrationNeeded' when 'readOnly' is set.'')
   \<and> transformConfig posix_fs (initial_defaultPath posix_fs) (\<lambda>s::unit. s)
        ((config_of_path ''a.realm'' :: unit configuration)\<lparr>readOnly := Some True, deleteRealmIfMigrationNeeded := Some True\<rparr>) None
       = Inl (AssertionError ''Cannot set 'deleteRealmIfMigrationNeeded' when 'readOnly' is set.'')
   \<and> Realm_constructor posix_fs (initial_defaultPath posix_fs) (\<lambda>_. True) (\<lambda>_. Inr ()) (\<lambda>s::unit. s) (\<lambda>_. Inr ())
        ((config_of_path ''a.realm'' :: unit configuration)\<lparr>readOnly := Some True, deleteRealmIfMigrationNeeded := Some True\<rparr>)
       = (Inl (ConfigurationError ''Cannot set 'deleteRealmIfMigrationNeeded' when 'readOnly' is set.'') :: error + unit)"
  using contradictory_flags_rejected
          [of "(config_of_path ''a.realm'' :: unit configuration)\<lparr>readOnly := Some True, deleteRealmIfMigrationNeeded := Some True\<rparr>"
              "\<lambda>_. True" posix_fs "initial_defaultPath posix_fs" "\<lambda>s::unit. s" None "\<lambda>_. Inr ()"]
  by (simp add: config_of_path_def validateConfiguration_def transformConfig_def Realm_constructor_def
        determinePath_def normalizePath_def determineSchemaMode_def assert_def truthy_def posix_fs_def)

section \<open>Template objects: what the loop assigns\<close>

lemma template_loop_lookup:
  "distinct (map fst ps) \<Longrightarrow>
   template_loop ps acc k =
     (case map_of ps k of
        None \<Rightarrow> acc k
      | Some pr \<Rightarrow>
          if p_default pr \<noteq> JUndefined then Some (p_default pr)
          else if p_optional pr then acc k
          else (case switch_type (p_type pr) of Some v \<Rightarrow> Some v | None \<Rightarrow> acc k))"
proof (induction ps arbitrary: acc)
  case Nil
  then show ?case by simp
next
  case (Cons a ps)
  obtain key pr where a: "a = (key, pr)" by (cases a)
  from Cons.prems a have d: "distinct (map fst ps)" and nk: "key \<notin> fst ` set ps" by auto
  from nk have mk: "map_of ps key = None" by (simp add: map_of_eq_None_iff)
  show ?case
    using Cons.IH [OF d] mk a
    by (auto simp: typeof_undefined_iff split: option.splits)
qed

text \<open>
  Claim C9. For a valid object schema (the keys of whose normalized properties are
  distinct, as the keys of an object are), \<^verbatim>\<open>createTemplateObject\<close> returns an object in
  which a property with a declared default has that default, any other optional property
  is absent, any other required property of type bool, int, float, double, string, data
  or date has \<^verbatim>\<open>false\<close>, \<open>0\<close>, \<open>0\<close>, \<open>0\<close>, the empty string, an empty buffer or the epoch
  date, and a required property of any other type (a list, a link) is absent; the
  object has no other key.
\<close>

theorem createTemplateObject_defaults:
  assumes "validateObjectSchema os = Inr ()"
      and "distinct (map fst (normalizeObjectSchema os))"
  shows "\<exists>result. createTemplateObject validateObjectSchema normalizeObjectSchema os = Inr result
           \<and> (\<forall>(key, pr) \<in> set (normalizeObjectSchema os).
                 result key =
                   (if p_default pr \<noteq> JUndefined then Some (p_default pr)
                    else if p_optional pr then None
                    else if p_type pr = ''bool'' then Some (JBoolean False)
                    else if p_type pr = ''int'' then Some (JNumber (Finite 0))
                    else if p_type pr = ''float'' then Some (JNumber (Finite 0))
                    else if p_type pr = ''double'' then Some (JNumber (Finite 0))
                    else if p_type pr = ''string'' then Some (JString [])
                    else if p_type pr = ''data'' then Some (JArrayBuffer [])
                    else if p_type pr = ''date'' then Some (JDate 0)
                    else None))
           \<and> (\<forall>key. key \<notin> fst ` set (normalizeObjectSchema os) \<longrightarrow> result key = None)"
proof -
  let ?ps = "normalizeObjectSchema os"
  have r: "createTemplateObject validateObjectSchema normalizeObjectSchema os
             = Inr (template_loop ?ps Map.empty)"
    using assms(1) by (simp add: createTemplateObject_def)
  have a: "\<forall>(key, pr) \<in> set ?ps.
             template_loop ?ps Map.empty key =
                   (if p_default pr \<noteq> JUndefined then Some (p_default pr)
                    else if p_optional pr then None
                    else if p_type pr = ''bool'' then Some (JBoolean False)
                    else if p_type pr = ''int'' then Some (JNumber (Finite 0))
                    else if p_type pr = ''float'' then Some (JNumber (Finite 0))
                    else if p_type pr = ''double'' then Some (JNumber (Finite 0))
                    else if p_type pr = ''string'' then Some (JString [])
                    else if p_type pr = ''data'' then Some (JArrayBuffer [])
                    else if p_type pr = ''date'' then Some (JDate 0)
                    else None)"
  proof (clarify)
    fix key pr assume "(key, pr) \<in> set ?ps"
    then have m: "map_of ?ps key = Some pr"
      using assms(2) by simp
    show "template_loop ?ps Map.empty key =
                   (if p_default pr \<noteq> JUndefined then Some (p_default pr)
                    else if p_optional pr then None
                    else if p_type pr = ''bool'' then Some (JBoolean False)
                    else if p_type pr = ''int'' then Some (JNumber (Finite 0))
                    else if p_type pr = ''float'' then Some (JNumber (Finite 0))
                    else if p_type pr = ''double'' then Some (JNumber (Finite 0))
                    else if p_type pr = ''string'' then Some (JString [])
                    else if p_type pr = ''data'' then Some (JArrayBuffer [])
                    else if p_type pr = ''date'' then Some (JDate 0)
                    else None)"
      unfolding template_loop_lookup [OF assms(2)] m
      by (simp add: switch_type_def)
  qed
  have b: "\<forall>key. key \<notin> fst ` set ?ps \<longrightarrow> template_loop ?ps Map.empty key = None"
  proof (intro allI impI)
    fix key assume "key \<notin> fst ` set ?ps"
    then have "map_of ?ps key = None" by (simp add: map_of_eq_None_iff)
    then show "template_loop ?ps Map.empty key = None"
      by (simp add: template_loop_lookup [OF assms(2)])
  qed
  show ?thesis using r a b by blast
qed

theorem createTemplateObject_defaults_witness:
  "distinct (map fst properties_example)
   \<and> (\<exists>result. createTemplateObject (\<lambda>_. Inr ()) (\<lambda>_. properties_example) () = Inr result
         \<and> result ''name'' = Some (JString [])
         \<and> result ''age'' = Some (JNumber (Finite 5))
         \<and> result ''nick'' = None
         \<and> result ''born'' = Some (JDate 0)
         \<and> result ''owner'' = None
         \<and> result ''tags'' = None
         \<and> result ''other'' = None)"
proof -
  have "\<exists>result. createTemplateObject (\<lambda>_. Inr ()) (\<lambda>_. properties_example) () = Inr result
         \<and> result ''name'' = Some (JString [])
         \<and> result ''age'' = Some (JNumber (Finite 5))
         \<and> result ''nick'' = None
         \<and> result ''born'' = Some (JDate 0)
         \<and> result ''owner'' = None
         \<and> result ''tags'' = None
         \<and> result ''other'' = None"
    using createTemplateObject_defaults [of "\<lambda>_. Inr ()" "()" "\<lambda>_. properties_example"]
    apply (simp add: properties_example_def)
    apply (erule exE)
    apply (rule_tac x = result in exI)
    apply simp
    done
  then show ?thesis by (simp add: properties_example_def)
qed

section \<open>Running under a transaction\<close>

text \<open>
  Claim C1, as stated for every callback, fails: a callback that ends the transaction
  itself and then raises \<open>E\<close> makes \<^verbatim>\<open>write\<close> raise the engine's error for the second
  cancel instead of \<open>E\<close>, and one that commits itself and returns \<open>5\<close> makes \<^verbatim>\<open>write\<close>
  raise instead of returning \<open>5\<close>.
\<close>

theorem write_callback_ends_transaction_counterexample:
  "fst (callback_cancel_then_throw (realm_idle\<lparr>internal := (internal realm_idle)\<lparr>isInTransaction := True\<rparr>\<rparr>))
     = Inl (Error ''E'')
   \<and> fst (Realm_write realm_idle callback_cancel_then_throw)
     = Inl (IllegalStateError ''Cannot cancel a non-existing write transaction'')
   \<and> fst (callback_commit_then_return (realm_idle\<lparr>internal := (internal realm_idle)\<lparr>isInTransaction := True\<rparr>\<rparr>))
     = Inr 5
   \<and> fst (Realm_write realm_idle callback_commit_then_return)
     = Inl (IllegalStateError ''Cannot commit a non-existing write transaction'')"
  by (simp add: Realm_write_def callback_cancel_then_throw_def callback_commit_then_return_def
        Realm_cancelTransaction_def Realm_commitTransaction_def
        beginTransaction_def cancelTransaction_def commitTransaction_def realm_idle_def)

lemma write_begins_first:
  "isInTransaction (internal r) \<Longrightarrow> \<not> isClosed (internal r) \<Longrightarrow>
   Realm_write r callback = (Inl (IllegalStateError ''The Realm is already in a write transaction''), r)"
  by (simp add: Realm_write_def beginTransaction_def)

text \<open>
  Claim C1, amended. On an open handle outside a transaction, \<^verbatim>\<open>write\<close> first begins a
  transaction and runs the callback inside it. For every callback that leaves the handle
  open and in that transaction: if it raises \<open>E\<close>, the transaction is cancelled (the handle
  is idle, the pending writes are discarded, nothing is committed) and \<open>E\<close> is re-raised;
  if it returns \<open>v\<close>, the transaction is committed and \<^verbatim>\<open>write\<close> returns \<open>v\<close>.
\<close>

theorem write_commits_or_cancels:
  assumes "\<not> isClosed (internal r)" and "\<not> isInTransaction (internal r)"
      and "callback (r\<lparr>internal := (internal r)\<lparr>isInTransaction := True\<rparr>\<rparr>) = (res, r')"
      and "\<not> isClosed (internal r')" and "isInTransaction (internal r')"
  shows "(\<forall>E. res = Inl E \<longrightarrow>
            Realm_write r callback
              = (Inl E, r'\<lparr>internal := (internal r')\<lparr>isInTransaction := False, live := committed (internal r')\<rparr>\<rparr>))
       \<and> (\<forall>v. res = Inr v \<longrightarrow>
            Realm_write r callback
              = (Inr v, r'\<lparr>internal := (internal r')\<lparr>isInTransaction := False, committed := live (internal r')\<rparr>\<rparr>))"
  using assms
  by (simp add: Realm_write_def beginTransaction_def cancelTransaction_def commitTransaction_def)

theorem write_commits_or_cancels_witness:
  "\<not> isClosed (internal realm_idle) \<and> \<not> isInTransaction (internal realm_idle)
   \<and> fst (Realm_write realm_idle callback_throw) = Inl (Error ''E'')
   \<and> \<not> isInTransaction (internal (snd (Realm_write realm_idle callback_throw)))
   \<and> db_schemaVersion (live (internal (snd (Realm_write realm_idle callback_throw)))) = 0
   \<and> db_schemaVersion (committed (internal (snd (Realm_write realm_idle callback_throw)))) = 0
   \<and> fst (Realm_write realm_idle callback_return) = Inr 5
   \<and> \<not> isInTransaction (internal (snd (Realm_write realm_idle callback_return)))
   \<and> db_schemaVersion (committed (internal (snd (Realm_write realm_idle callback_return)))) = 9"
  using write_commits_or_cancels [of realm_idle callback_throw "Inl (Error ''E'')"
          "snd (callback_throw (realm_idle\<lparr>internal := (internal realm_idle)\<lparr>isInTransaction := True\<rparr>\<rparr>))"]
        write_commits_or_cancels [of realm_idle callback_return "Inr 5"
          "snd (callback_return (realm_idle\<lparr>internal := (internal realm_idle)\<lparr>isInTransaction := True\<rparr>\<rparr>))"]
  by (simp add: callback_throw_def callback_return_def realm_idle_def database_empty_def)

section \<open>create: validation before the engine\<close>

lemma create_true: "create f r type values (JBoolean True) = create f r type values (UpdateMode_value UpdateAll)"
  by (simp add: create_def)

lemma create_false: "create f r type values (JBoolean False) = create f r type values (UpdateMode_value UpdateNever)"
  by (simp add: create_def)

lemma create_passes_mode:
  assumes "\<not> isClosed (internal r)" and "classes r type = Some helpers"
      and "\<forall>v. values = InstanceValues v \<longrightarrow> ro_internal v \<noteq> None"
      and "m \<in> set UpdateMode_values"
  shows "create f r type values m = f r values m helpers"
  using assms
  by (cases "values")
     (auto simp: create_def UpdateMode_values_def verifyOpen_def getHelpers_def)

lemma create_detached:
  assumes "values = InstanceValues v" and "ro_internal v = None"
  shows "create f r type values mode
            = (Inl (Error ''Cannot create an object from a detached Realm.Object instance''), r)"
  using assms by (simp add: create_def Let_def)

lemma create_unsupported:
  assumes "mode \<noteq> JUndefined" and "\<forall>b. mode \<noteq> JBoolean b"
      and "mode \<notin> {JString ''never'', JString ''modified'', JString ''all''}"
      and "\<forall>v. values = InstanceValues v \<longrightarrow> ro_internal v \<noteq> None"
  shows "create f r type values mode
            = (Inl (Error ''Unsupported 'updateMode'. Only 'never', 'modified' or 'all' is supported.''), r)"
  using assms
  by (cases "values") (auto simp: create_def UpdateMode_values_def)

text \<open>
  Claim C4, as stated, fails on the kind of the error: for the mode \<open>sometimes\<close>, which is
  none of \<open>never\<close>, \<open>modified\<close>, \<open>all\<close>, \<^verbatim>\<open>create\<close> throws the plain \<^verbatim>\<open>new Error(...)\<close> of the
  source, which is no \<open>InvalidArgumentError\<close>, whatever its message.
\<close>

theorem create_unsupported_mode_counterexample:
  "fst (create RealmObject_create_sample realm_dogs ''Dog'' (PlainValues []) (JString ''sometimes''))
     = Inl (Error ''Unsupported 'updateMode'. Only 'never', 'modified' or 'all' is supported.'')
   \<and> (\<forall>m. fst (create RealmObject_create_sample realm_dogs ''Dog'' (PlainValues []) (JString ''sometimes''))
            \<noteq> Inl (InvalidArgumentError m))"
  by (simp add: create_def UpdateMode_values_def)

text \<open>No call of \<^verbatim>\<open>create\<close> raises an \<open>InvalidArgumentError\<close> of its own: one can only come out of \<^verbatim>\<open>RealmObject.create\<close>.\<close>

lemma create_never_InvalidArgumentError:
  assumes "\<forall>r' vs m' h. fst (f r' vs m' h) \<noteq> Inl (InvalidArgumentError msg)"
  shows "fst (create f r type values mode) \<noteq> Inl (InvalidArgumentError msg)"
  using assms
  by (auto simp: create_def Let_def verifyOpen_def getHelpers_def split: option.splits)

text \<open>
  Claim C4, amended. In \<^verbatim>\<open>create\<close> the boolean \<^verbatim>\<open>true\<close> is the mode \<open>all\<close> and \<^verbatim>\<open>false\<close> the mode
  \<open>never\<close>, and it is the named mode that is handed on. A mode that is neither absent, nor
  a boolean, nor one of \<open>never\<close>, \<open>modified\<close>, \<open>all\<close> makes \<^verbatim>\<open>create\<close> raise the plain
  \<^verbatim>\<open>Error\<close> "Unsupported 'updateMode'. Only 'never', 'modified' or 'all' is supported.", and
  a detached typed object
  passed as values makes it raise "Cannot create an object from a detached Realm.Object
  instance", whatever the mode. Both errors are raised for every handle and
  every class name, closed handles and unknown classes included, and leave the instance
  as it was: they come before any call to the engine.
\<close>

theorem create_validates_before_engine:
  "create f r type values (JBoolean True) = create f r type values (UpdateMode_value UpdateAll)
   \<and> create f r type values (JBoolean False) = create f r type values (UpdateMode_value UpdateNever)
   \<and> (\<not> isClosed (internal r) \<and> classes r type = Some helpers
        \<and> (\<forall>v. values = InstanceValues v \<longrightarrow> ro_internal v \<noteq> None) \<longrightarrow>
          create f r type values (JBoolean True) = f r values (JString ''all'') helpers
          \<and> create f r type values (JBoolean False) = f r values (JString ''never'') helpers)
   \<and> (mode \<noteq> JUndefined \<and> (\<forall>b. mode \<noteq> JBoolean b)
        \<and> mode \<notin> {JString ''never'', JString ''modified'', JString ''all''} \<longrightarrow>
          create f r type values mode
            = (Inl (Error (if \<exists>v. values = InstanceValues v \<and> ro_internal v = None
                           then ''Cannot create an object from a detached Realm.Object instance''
                           else ''Unsupported 'updateMode'. Only 'never', 'modified' or 'all' is supported.'')), r))
   \<and> ((\<exists>v. values = InstanceValues v \<and> ro_internal v = None) \<longrightarrow>
          create f r type values mode
            = (Inl (Error ''Cannot create an object from a detached Realm.Object instance''), r))"
proof (intro conjI impI)
  show "create f r type values (JBoolean True) = create f r type values (UpdateMode_value UpdateAll)"
    by (rule create_true)
  show "create f r type values (JBoolean False) = create f r type values (UpdateMode_value UpdateNever)"
    by (rule create_false)
next
  assume a: "\<not> isClosed (internal r) \<and> classes r type = Some helpers
        \<and> (\<forall>v. values = InstanceValues v \<longrightarrow> ro_internal v \<noteq> None)"
  have "create f r type values (UpdateMode_value UpdateAll) = f r values (UpdateMode_value UpdateAll) helpers"
    using a by (intro create_passes_mode) (simp_all add: UpdateMode_values_def)
  then show "create f r type values (JBoolean True) = f r values (JString ''all'') helpers"
    by (simp add: create_true)
  have "create f r type values (UpdateMode_value UpdateNever) = f r values (UpdateMode_value UpdateNever) helpers"
    using a by (intro create_passes_mode) (simp_all add: UpdateMode_values_def)
  then show "create f r type values (JBoolean False) = f r values (JString ''never'') helpers"
    by (simp add: create_false)
next
  assume a: "mode \<noteq> JUndefined \<and> (\<forall>b. mode \<noteq> JBoolean b)
        \<and> mode \<notin> {JString ''never'', JString ''modified'', JString ''all''}"
  show "create f r type values mode
            = (Inl (Error (if \<exists>v. values = InstanceValues v \<and> ro_internal v = None
                           then ''Cannot create an object from a detached Realm.Object instance''
                           else ''Unsupported 'updateMode'. Only 'never', 'modified' or 'all' is supported.'')), r)"
  proof (cases "\<exists>v. values = InstanceValues v \<and> ro_internal v = None")
    case True
    then show ?thesis using create_detached [of "values" _ f r type mode] by auto
  next
    case False
    then show ?thesis using a create_unsupported [of mode "values" f r type] by auto
  qed
next
  assume "\<exists>v. values = InstanceValues v \<and> ro_internal v = None"
  then show "create f r type values mode
            = (Inl (Error ''Cannot create an object from a detached Realm.Object instance''), r)"
    using create_detached [of "values" _ f r type mode] by auto
qed

theorem create_validates_before_engine_witness:
  "create RealmObject_create_sample realm_dogs ''Dog'' (PlainValues []) (JBoolean True)
     = RealmObject_create_sample realm_dogs (PlainValues []) (JString ''all'') dog_helpers
   \<and> create RealmObject_create_sample realm_dogs ''Dog'' (PlainValues []) (JString ''sometimes'')
     = (Inl (Error ''Unsupported 'updateMode'. Only 'never', 'modified' or 'all' is supported.''), realm_dogs)
   \<and> create RealmObject_create_sample realm_dogs ''Dog'' (InstanceValues dog_detached) (JString ''all'')
     = (Inl (Error ''Cannot create an object from a detached Realm.Object instance''), realm_dogs)"
proof -
  have a: "create RealmObject_create_sample realm_dogs ''Dog'' (PlainValues []) (JBoolean True)
             = RealmObject_create_sample realm_dogs (PlainValues []) (JString ''all'') dog_helpers"
    using create_validates_before_engine
            [of RealmObject_create_sample realm_dogs "''Dog''" "PlainValues []" dog_helpers "JString ''sometimes''",
             THEN conjunct2, THEN conjunct2, THEN conjunct1]
    by (simp add: realm_dogs_def)
  have b: "create RealmObject_create_sample realm_dogs ''Dog'' (PlainValues []) (JString ''sometimes'')
             = (Inl (Error ''Unsupported 'updateMode'. Only 'never', 'modified' or 'all' is supported.''), realm_dogs)"
    using create_validates_before_engine
            [of RealmObject_create_sample realm_dogs "''Dog''" "PlainValues []" dog_helpers "JString ''sometimes''",
             THEN conjunct2, THEN conjunct2, THEN conjunct2, THEN conjunct1]
    by simp
  have c: "create RealmObject_create_sample realm_dogs ''Dog'' (InstanceValues dog_detached) (JString ''all'')
             = (Inl (Error ''Cannot create an object from a detached Realm.Object instance''), realm_dogs)"
    using create_validates_before_engine
            [of RealmObject_create_sample realm_dogs "''Dog''" "InstanceValues dog_detached" dog_helpers "JString ''all''",
             THEN conjunct2, THEN conjunct2, THEN conjunct2, THEN conjunct2]
    by (simp add: dog_detached_def)
  show ?thesis using a b c by simp
qed

section \<open>delete\<close>

lemma delete_requires_transaction:
  "\<not> isInTransaction (internal r) \<Longrightarrow>
   Realm_delete r subj = (Inl (IllegalStateError ''Can only delete objects within a transaction.''), r)"
  by (simp add: Realm_delete_def assert_inTransaction_def)

lemma delete_single_validates:
  assumes "isInTransaction (internal r)" and "classes r (ro_class s) = Some helpers"
      and "\<forall>b. ro_internal s = Some b \<longrightarrow> \<not> obj_isValid (internal r) b"
  shows "Realm_delete r (Instance s)
           = (Inl (InvalidatedObjectError
                ''Object is invalid. Either it has been previously deleted or the Realm it belongs to has been closed.''), r)"
  using assms
  by (cases "ro_internal s")
     (simp_all add: Realm_delete_def assert_inTransaction_def getHelpers_def assert_isValid_def)

lemma delete_single_removes:
  assumes "isInTransaction (internal r)" and "classes r (ro_class s) = Some helpers"
      and "ro_internal s = Some b" and "obj_isValid (internal r) b"
      and "obj_table b = os_tableKey (objectSchema helpers)"
  shows "\<exists>r'. Realm_delete r (Instance s) = (Inr (), r')
           \<and> \<not> obj_isValid (internal r') b"
  using assms
  by (auto simp: Realm_delete_def assert_inTransaction_def getHelpers_def assert_isValid_def
        removeObject_def getTable_def obj_isValid_def split: option.splits)

lemma delete_unsupported_object:
  "isInTransaction (internal r) \<Longrightarrow>
   Realm_delete r PlainObject = (Inl (Error ''Not yet implemented''), r)"
  by (simp add: Realm_delete_def assert_inTransaction_def)

text \<open>No item of a sequence is ever rejected as invalidated, whatever the handle and the items.\<close>

lemma delete_items_never_invalidated:
  "fst (delete_items r items) \<noteq> Inl (InvalidatedObjectError m)"
proof (induction r items rule: delete_items.induct)
  case (1 r)
  then show ?case by simp
next
  case (2 r v rest)
  then show ?case by simp
next
  case (3 r object rest)
  then show ?case
    by (auto simp: getHelpers_def getTable_def removeObject_def split: option.splits sum.splits)
qed

text \<open>
  Claim C3. Outside a transaction \<^verbatim>\<open>delete\<close> fails, a single typed object is validated as
  attached before its row is removed, and an object of an unsupported shape raises "Not yet
  implemented", the specification's \<open>NotImplementedError\<close> (the first four lemmas above). The items of a sequence are not validated: for the
  typed object on a deleted row, and for the detached one, \<^verbatim>\<open>delete(object)\<close> raises the
  \<open>InvalidatedObjectError\<close>, while \<^verbatim>\<open>delete([object])\<close> goes on to the removal and raises the
  engine's error, or a \<open>TypeError\<close> on reading the key.
\<close>

theorem delete_sequence_skips_validation:
  "fst (Realm_delete realm_dogs (Instance dog_deleted))
     = Inl (InvalidatedObjectError
         ''Object is invalid. Either it has been previously deleted or the Realm it belongs to has been closed.'')
   \<and> fst (Realm_delete realm_dogs (Iterable [ItemObject dog_deleted]))
     = Inl (EngineError ''No object with key'')
   \<and> fst (Realm_delete realm_dogs (Instance dog_detached))
     = Inl (InvalidatedObjectError
         ''Object is invalid. Either it has been previously deleted or the Realm it belongs to has been closed.'')
   \<and> fst (Realm_delete realm_dogs (Iterable [ItemObject dog_detached]))
     = Inl (TypeError ''Cannot read properties of undefined (reading 'key')'')"
  by (simp add: Realm_delete_def assert_inTransaction_def getHelpers_def assert_isValid_def
        obj_isValid_def removeObject_def getTable_def
        realm_dogs_def database_dogs_def dog_helpers_def dog_schema_def dog_deleted_def dog_detached_def)

section \<open>deleteModel\<close>

text \<open>
  Claim C5. For a class name \<open>n\<close> of the handle's schema, \<^verbatim>\<open>deleteModel(n)\<close> fails with an
  \<open>IllegalStateError\<close> outside a transaction; inside one it removes the table of the class,
  leaves the other tables alone, and applies the previous schema without the entries named
  \<open>n\<close> under the previous schema version plus one.
\<close>

theorem deleteModel_bumps_version:
  assumes "n \<in> os_name ` set (db_schema (live (internal r)))"
  shows "(\<not> isInTransaction (internal r) \<longrightarrow>
            deleteModel r n = (Inl (IllegalStateError ''Can only delete objects within a transaction.''), r))
       \<and> (isInTransaction (internal r) \<longrightarrow>
            (\<exists>r' s. deleteModel r n = (Inr (), r')
               \<and> s \<in> set (db_schema (live (internal r))) \<and> os_name s = n
               \<and> db_tables (live (internal r')) (os_tableKey s) = None
               \<and> (\<forall>tk. tk \<noteq> os_tableKey s \<longrightarrow>
                     db_tables (live (internal r')) tk = db_tables (live (internal r)) tk)
               \<and> db_schema (live (internal r')) = filter (\<lambda>s. os_name s \<noteq> n) (db_schema (live (internal r)))
               \<and> n \<notin> os_name ` set (db_schema (live (internal r')))
               \<and> db_schemaVersion (live (internal r')) = db_schemaVersion (live (internal r)) + 1))"
proof (intro conjI impI)
  assume "\<not> isInTransaction (internal r)"
  then show "deleteModel r n = (Inl (IllegalStateError ''Can only delete objects within a transaction.''), r)"
    by (simp add: deleteModel_def assert_inTransaction_def)
next
  assume t: "isInTransaction (internal r)"
  from assms have "find (\<lambda>s. os_name s = n) (db_schema (live (internal r))) \<noteq> None"
    by (auto simp: find_None_iff)
  then obtain s where f: "find (\<lambda>s. os_name s = n) (db_schema (live (internal r))) = Some s"
    by blast
  then have s: "s \<in> set (db_schema (live (internal r)))" "os_name s = n"
    by (auto simp: find_Some_iff)
  show "\<exists>r' s. deleteModel r n = (Inr (), r')
               \<and> s \<in> set (db_schema (live (internal r))) \<and> os_name s = n
               \<and> db_tables (live (internal r')) (os_tableKey s) = None
               \<and> (\<forall>tk. tk \<noteq> os_tableKey s \<longrightarrow>
                     db_tables (live (internal r')) tk = db_tables (live (internal r)) tk)
               \<and> db_schema (live (internal r')) = filter (\<lambda>s. os_name s \<noteq> n) (db_schema (live (internal r)))
               \<and> n \<notin> os_name ` set (db_schema (live (internal r')))
               \<and> db_schemaVersion (live (internal r')) = db_schemaVersion (live (internal r)) + 1"
    using t f s
    by (intro exI [of _ "snd (deleteModel r n)"] exI [of _ s])
       (auto simp: deleteModel_def assert_inTransaction_def deleteDataForObject_def updateSchema_def)
qed

theorem deleteModel_bumps_version_witness:
  "''Dog'' \<in> os_name ` set (db_schema (live (internal realm_dogs)))
   \<and> isInTransaction (internal realm_dogs)
   \<and> fst (deleteModel realm_dogs ''Dog'') = Inr ()
   \<and> db_tables (live (internal (snd (deleteModel realm_dogs ''Dog'')))) 0 = None
   \<and> db_schema (live (internal (snd (deleteModel realm_dogs ''Dog'')))) = [cat_schema]
   \<and> db_tables (live (internal (snd (deleteModel realm_dogs ''Dog'')))) 1 = Some Map.empty
   \<and> db_schemaVersion (live (internal (snd (deleteModel realm_dogs ''Dog'')))) = 4
   \<and> fst (deleteModel (realm_dogs\<lparr>internal := (internal realm_dogs)\<lparr>isInTransaction := False\<rparr>\<rparr>) ''Dog'')
       = Inl (IllegalStateError ''Can only delete objects within a transaction.'')"
  using deleteModel_bumps_version [of "''Dog''" realm_dogs]
        deleteModel_bumps_version [of "''Dog''" "realm_dogs\<lparr>internal := (internal realm_dogs)\<lparr>isInTransaction := False\<rparr>\<rparr>"]
  by (auto simp: realm_dogs_def database_dogs_def dog_schema_def cat_schema_def)

section \<open>objectForPrimaryKey\<close>

lemma lookup_catch_generic:
  "\<not> (instanceof_Error err \<and> prefix ''No object with key'' (message err)) \<Longrightarrow>
   lookup_catch b os k err = err"
  unfolding lookup_catch_def by (rule if_not_P)

lemma objectForPrimaryKey_no_key:
  assumes "classes r type = Some helpers"
      and "os_primaryKey (objectSchema helpers) = None"
  shows "objectForPrimaryKey b r type k
           = Inl (Error (''Expected a primary key on '' @ quoted (os_name (objectSchema helpers))))"
  using assms by (simp add: objectForPrimaryKey_def getHelpers_def Let_def)

lemma objectForPrimaryKey_lookup_eq:
  assumes "classes r type = Some helpers"
      and "os_primaryKey (objectSchema helpers) = Some pk" and "pk \<noteq> []"
      and "db_tables (live (internal r)) (os_tableKey (objectSchema helpers)) = Some t"
      and "properties_get helpers pk = Inr enc" and "enc k = Inr v"
  shows "objectForPrimaryKey b r type k =
           (case findPrimaryKey b t v of
              Inl err \<Rightarrow> Inl (lookup_catch b (objectSchema helpers) k err)
            | Inr fk \<Rightarrow>
                (case assert_bigInt fk of
                   Inl err \<Rightarrow> Inl (lookup_catch b (objectSchema helpers) k err)
                 | Inr objKey \<Rightarrow>
                     if objKey = - 1 then Inr None
                     else
                       (case getObject b t objKey of
                          Inl err \<Rightarrow> Inl (lookup_catch b (objectSchema helpers) k err)
                        | Inr ob \<Rightarrow> Inr (Some (wrapObject helpers ob)))))"
  using assms by (simp add: objectForPrimaryKey_def getHelpers_def getTable_def Let_def)

lemma lookup_catch_remaps:
  "instanceof_Error err \<Longrightarrow> prefix ''No object with key'' (message err) \<Longrightarrow>
   lookup_catch b os k err
     = Error (''No '' @ quoted (os_name os) @ '' with key '' @ quoted (toString b k))"
  unfolding lookup_catch_def by simp

text \<open>
  Claim C6, as stated, fails where the engine signals the missing row with an error: no
  \<open>Dog\<close> is named \<open>Ghost\<close>, the key lookup raises "No object with key Ghost", and
  \<^verbatim>\<open>objectForPrimaryKey\<close> neither returns \<^verbatim>\<open>undefined\<close> nor lets that error through unchanged: the
  \<^verbatim>\<open>catch\<close> clause throws a new plain \<^verbatim>\<open>Error\<close>. The same happens when the key lookup reports the
  key of a row that is gone and the row lookup raises.
\<close>

theorem objectForPrimaryKey_not_found_counterexample:
  "findPrimaryKey lookup_sample [1 \<mapsto> [''name'' \<mapsto> JString ''Rex'']] (JString ''Ghost'')
     = Inl (EngineError ''No object with key Ghost'')
   \<and> objectForPrimaryKey lookup_sample realm_dogs ''Dog'' (JString ''Ghost'')
     = Inl (Error (''No '' @ quoted ''Dog'' @ '' with key '' @ quoted ''Ghost''))
   \<and> objectForPrimaryKey lookup_sample realm_dogs ''Dog'' (JString ''Ghost'') \<noteq> Inr None
   \<and> objectForPrimaryKey lookup_sample realm_dogs ''Dog'' (JString ''Ghost'')
     \<noteq> Inl (EngineError ''No object with key Ghost'')
   \<and> objectForPrimaryKey lookup_sample realm_dogs ''Dog'' (JString ''Stale'')
     = Inl (Error (''No '' @ quoted ''Dog'' @ '' with key '' @ quoted ''Stale''))"
  by (simp add: objectForPrimaryKey_def getHelpers_def getTable_def lookup_catch_def assert_bigInt_def
        lookup_sample_def realm_dogs_def database_dogs_def dog_helpers_def dog_schema_def quoted_def)

text \<open>
  Claim C6, amended. For a class that resolves, \<^verbatim>\<open>objectForPrimaryKey\<close> raises the plain
  \<^verbatim>\<open>Error\<close> "Expected a primary key on '<class>'" when the class declares no primary key.
  Otherwise, with the key encoded by the primary key's property, it looks the key up in the
  class's table: when the engine reports the null key \<open>-1\<close> it returns \<^verbatim>\<open>undefined\<close>; when the
  engine reports another key and hands out the row, it returns the wrapped row; an error
  raised by either lookup whose message starts with "No object with key" is replaced by a
  new plain \<^verbatim>\<open>Error\<close> "No '<class>' with key '<key>'"; and any other error raised by either
  lookup is raised unchanged.
\<close>

theorem objectForPrimaryKey_outcomes:
  assumes "classes r type = Some helpers"
  shows "(os_primaryKey (objectSchema helpers) = None \<longrightarrow>
            objectForPrimaryKey b r type k
              = Inl (Error (''Expected a primary key on '' @ quoted (os_name (objectSchema helpers)))))
       \<and> (os_primaryKey (objectSchema helpers) = Some pk \<and> pk \<noteq> []
          \<and> db_tables (live (internal r)) (os_tableKey (objectSchema helpers)) = Some t
          \<and> properties_get helpers pk = Inr enc \<and> enc k = Inr v \<longrightarrow>
            (findPrimaryKey b t v = Inr (JBigInt (- 1)) \<longrightarrow> objectForPrimaryKey b r type k = Inr None)
          \<and> (\<forall>objKey ob. findPrimaryKey b t v = Inr (JBigInt objKey) \<and> objKey \<noteq> - 1
                 \<and> getObject b t objKey = Inr ob \<longrightarrow>
               objectForPrimaryKey b r type k = Inr (Some (wrapObject helpers ob)))
          \<and> (\<forall>err. findPrimaryKey b t v = Inl err
                 \<and> \<not> (instanceof_Error err \<and> prefix ''No object with key'' (message err)) \<longrightarrow>
               objectForPrimaryKey b r type k = Inl err)
          \<and> (\<forall>objKey err. findPrimaryKey b t v = Inr (JBigInt objKey) \<and> objKey \<noteq> - 1
                 \<and> getObject b t objKey = Inl err
                 \<and> \<not> (instanceof_Error err \<and> prefix ''No object with key'' (message err)) \<longrightarrow>
               objectForPrimaryKey b r type k = Inl err)
          \<and> (\<forall>err. findPrimaryKey b t v = Inl err
                 \<and> instanceof_Error err \<and> prefix ''No object with key'' (message err) \<longrightarrow>
               objectForPrimaryKey b r type k
                 = Inl (Error (''No '' @ quoted (os_name (objectSchema helpers)) @ '' with key ''
                                @ quoted (toString b k))))
          \<and> (\<forall>objKey err. findPrimaryKey b t v = Inr (JBigInt objKey) \<and> objKey \<noteq> - 1
                 \<and> getObject b t objKey = Inl err
                 \<and> instanceof_Error err \<and> prefix ''No object with key'' (message err) \<longrightarrow>
               objectForPrimaryKey b r type k
                 = Inl (Error (''No '' @ quoted (os_name (objectSchema helpers)) @ '' with key ''
                                @ quoted (toString b k)))))"
proof (intro conjI impI)
  assume "os_primaryKey (objectSchema helpers) = None"
  then show "objectForPrimaryKey b r type k
              = Inl (Error (''Expected a primary key on '' @ quoted (os_name (objectSchema helpers))))"
    using assms by (rule objectForPrimaryKey_no_key [rotated])
next
  assume a: "os_primaryKey (objectSchema helpers) = Some pk \<and> pk \<noteq> []
          \<and> db_tables (live (internal r)) (os_tableKey (objectSchema helpers)) = Some t
          \<and> properties_get helpers pk = Inr enc \<and> enc k = Inr v"
  note eq = objectForPrimaryKey_lookup_eq [of r type helpers pk t enc k v b]
  have e: "objectForPrimaryKey b r type k =
           (case findPrimaryKey b t v of
              Inl err \<Rightarrow> Inl (lookup_catch b (objectSchema helpers) k err)
            | Inr fk \<Rightarrow>
                (case assert_bigInt fk of
                   Inl err \<Rightarrow> Inl (lookup_catch b (objectSchema helpers) k err)
                 | Inr objKey \<Rightarrow>
                     if objKey = - 1 then Inr None
                     else
                       (case getObject b t objKey of
                          Inl err \<Rightarrow> Inl (lookup_catch b (objectSchema helpers) k err)
                        | Inr ob \<Rightarrow> Inr (Some (wrapObject helpers ob)))))"
    using eq assms a by simp
  show "findPrimaryKey b t v = Inr (JBigInt (- 1)) \<Longrightarrow> objectForPrimaryKey b r type k = Inr None"
    by (simp add: e assert_bigInt_def)
  show "\<forall>objKey ob. findPrimaryKey b t v = Inr (JBigInt objKey) \<and> objKey \<noteq> - 1
                 \<and> getObject b t objKey = Inr ob \<longrightarrow>
               objectForPrimaryKey b r type k = Inr (Some (wrapObject helpers ob))"
    by (simp add: e assert_bigInt_def)
  show "\<forall>err. findPrimaryKey b t v = Inl err
                 \<and> \<not> (instanceof_Error err \<and> prefix ''No object with key'' (message err)) \<longrightarrow>
               objectForPrimaryKey b r type k = Inl err"
    by (simp add: e lookup_catch_generic)
  show "\<forall>objKey err. findPrimaryKey b t v = Inr (JBigInt objKey) \<and> objKey \<noteq> - 1
                 \<and> getObject b t objKey = Inl err
                 \<and> \<not> (instanceof_Error err \<and> prefix ''No object with key'' (message err)) \<longrightarrow>
               objectForPrimaryKey b r type k = Inl err"
    by (simp add: e assert_bigInt_def lookup_catch_generic)
  show "\<forall>err. findPrimaryKey b t v = Inl err
                 \<and> instanceof_Error err \<and> prefix ''No object with key'' (message err) \<longrightarrow>
               objectForPrimaryKey b r type k
                 = Inl (Error (''No '' @ quoted (os_name (objectSchema helpers)) @ '' with key ''
                                @ quoted (toString b k)))"
    by (simp add: e lookup_catch_remaps)
  show "\<forall>objKey err. findPrimaryKey b t v = Inr (JBigInt objKey) \<and> objKey \<noteq> - 1
                 \<and> getObject b t objKey = Inl err
                 \<and> instanceof_Error err \<and> prefix ''No object with key'' (message err) \<longrightarrow>
               objectForPrimaryKey b r type k
                 = Inl (Error (''No '' @ quoted (os_name (objectSchema helpers)) @ '' with key ''
                                @ quoted (toString b k)))"
    by (simp add: e assert_bigInt_def lookup_catch_remaps)
qed

theorem objectForPrimaryKey_outcomes_witness:
  "classes realm_dogs ''Dog'' = Some dog_helpers
   \<and> classes realm_dogs ''Cat'' = Some cat_helpers
   \<and> objectForPrimaryKey lookup_sample realm_dogs ''Cat'' (JString ''Tom'')
       = Inl (Error (''Expected a primary key on '' @ quoted ''Cat''))
   \<and> objectForPrimaryKey lookup_sample realm_dogs ''Dog'' (JString ''Fido'') = Inr None
   \<and> objectForPrimaryKey lookup_sample realm_dogs ''Dog'' (JString ''Rex'') = Inr (Some dog_live)
   \<and> objectForPrimaryKey lookup_sample realm_dogs ''Dog'' (JString ''boom'')
       = Inl (EngineError ''I/O failure'')
   \<and> objectForPrimaryKey lookup_sample realm_dogs ''Dog'' (JString ''Ghost'')
       = Inl (Error (''No '' @ quoted ''Dog'' @ '' with key '' @ quoted ''Ghost''))
   \<and> objectForPrimaryKey lookup_sample realm_dogs ''Dog'' (JString ''Stale'')
       = Inl (Error (''No '' @ quoted ''Dog'' @ '' with key '' @ quoted ''Stale''))"
proof -
  have d: "classes realm_dogs ''Dog'' = Some dog_helpers"
    and c: "classes realm_dogs ''Cat'' = Some cat_helpers"
    by (simp_all add: realm_dogs_def)
  have pre: "os_primaryKey (objectSchema dog_helpers) = Some ''name'' \<and> ''name'' \<noteq> []
          \<and> db_tables (live (internal realm_dogs)) (os_tableKey (objectSchema dog_helpers))
               = Some [1 \<mapsto> [''name'' \<mapsto> JString ''Rex'']]
          \<and> properties_get dog_helpers ''name'' = Inr Inr \<and> Inr k = Inr k" for k :: js_value
    by (simp add: realm_dogs_def database_dogs_def dog_helpers_def dog_schema_def)
  have w1: "objectForPrimaryKey lookup_sample realm_dogs ''Cat'' (JString ''Tom'')
       = Inl (Error (''Expected a primary key on '' @ quoted ''Cat''))"
    using objectForPrimaryKey_outcomes
            [where b = lookup_sample and k = "JString ''Tom''", OF c, THEN conjunct1]
    by (simp add: cat_helpers_def cat_schema_def)
  have w2: "objectForPrimaryKey lookup_sample realm_dogs ''Dog'' (JString ''Fido'') = Inr None"
    using objectForPrimaryKey_outcomes
            [where r = realm_dogs and helpers = dog_helpers and b = lookup_sample and pk = "''name''"
               and t = "[1 \<mapsto> [''name'' \<mapsto> JString ''Rex'']]" and enc = Inr
               and k = "JString ''Fido''" and v = "JString ''Fido''", OF d, THEN conjunct2]
          pre
    by (simp add: lookup_sample_def)
  have w3: "objectForPrimaryKey lookup_sample realm_dogs ''Dog'' (JString ''Rex'') = Inr (Some dog_live)"
    using objectForPrimaryKey_outcomes
            [where r = realm_dogs and helpers = dog_helpers and b = lookup_sample and pk = "''name''"
               and t = "[1 \<mapsto> [''name'' \<mapsto> JString ''Rex'']]" and enc = Inr
               and k = "JString ''Rex''" and v = "JString ''Rex''", OF d, THEN conjunct2]
          pre
    by (simp add: lookup_sample_def dog_helpers_def dog_live_def)
  have w4: "objectForPrimaryKey lookup_sample realm_dogs ''Dog'' (JString ''boom'')
       = Inl (EngineError ''I/O failure'')"
    using objectForPrimaryKey_outcomes
            [where r = realm_dogs and helpers = dog_helpers and b = lookup_sample and pk = "''name''"
               and t = "[1 \<mapsto> [''name'' \<mapsto> JString ''Rex'']]" and enc = Inr
               and k = "JString ''boom''" and v = "JString ''boom''", OF d, THEN conjunct2]
          pre
    by (simp add: lookup_sample_def)
  have w5: "objectForPrimaryKey lookup_sample realm_dogs ''Dog'' (JString ''Ghost'')
       = Inl (Error (''No '' @ quoted ''Dog'' @ '' with key '' @ quoted ''Ghost''))"
    using objectForPrimaryKey_outcomes
            [where r = realm_dogs and helpers = dog_helpers and b = lookup_sample and pk = "''name''"
               and t = "[1 \<mapsto> [''name'' \<mapsto> JString ''Rex'']]" and enc = Inr
               and k = "JString ''Ghost''" and v = "JString ''Ghost''", OF d, THEN conjunct2]
          pre
    by (simp add: lookup_sample_def dog_helpers_def dog_schema_def)
  have w6: "objectForPrimaryKey lookup_sample realm_dogs ''Dog'' (JString ''Stale'')
       = Inl (Error (''No '' @ quoted ''Dog'' @ '' with key '' @ quoted ''Stale''))"
    using objectForPrimaryKey_outcomes
            [where r = realm_dogs and helpers = dog_helpers and b = lookup_sample and pk = "''name''"
               and t = "[1 \<mapsto> [''name'' \<mapsto> JString ''Rex'']]" and enc = Inr
               and k = "JString ''Stale''" and v = "JString ''Stale''", OF d, THEN conjunct2]
          pre
    by (simp add: lookup_sample_def dog_helpers_def dog_schema_def)
  show ?thesis using d c w1 w2 w3 w4 w5 w6 by simp
qed

end
